theory Spec2Isabelle
  imports Main "HOL-Library.Word"
begin

section \<open>Strings and numbers as the worker renders them\<close>

text \<open>
  Strings are lists of characters. \<^verbatim>\<open>String.prototype.toLowerCase\<close> belongs to the
  JavaScript runtime, not to this program: the functions that call it take it as their
  first argument \<open>toLowerCase\<close>, and nothing is assumed of it.
\<close>

type_synonym lower_fn = "string \<Rightarrow> string"

text \<open>Decimal rendering of a non-negative integer: \<^verbatim>\<open>Date.now().toString()\<close> and the
  placeholder \<^verbatim>\<open>${response.status}\<close>.\<close>

definition digit_char :: "nat \<Rightarrow> char" where
  "digit_char n = ''0123456789'' ! (n mod 10)"

function show_nat :: "nat \<Rightarrow> string" where
  "show_nat n = (if n < 10 then [digit_char n]
                 else show_nat (n div 10) @ [digit_char n])"
  by pat_completeness auto
termination
  by (relation "measure id") auto

definition show_int :: "int \<Rightarrow> string" where
  "show_int i = (if i < 0 then CHR ''-'' # show_nat (nat (- i)) else show_nat (nat i))"

text \<open>\<^verbatim>\<open>digest('hex')\<close>: two lowercase hexadecimal digits for each byte of the digest.\<close>

definition hex_digit :: "nat \<Rightarrow> char" where
  "hex_digit n = ''0123456789abcdef'' ! (n mod 16)"

definition hex_byte :: "8 word \<Rightarrow> string" where
  "hex_byte b = [hex_digit (unat b div 16), hex_digit (unat b)]"

definition hex :: "8 word list \<Rightarrow> string" where
  "hex bs = concat (map hex_byte bs)"

text \<open>\<^verbatim>\<open>s.split(c)\<close> for a one-character separator: the pieces between the
  separators, the empty string giving one empty piece.\<close>

fun split_on :: "char \<Rightarrow> string \<Rightarrow> string list" where
  "split_on c [] = [[]]"
| "split_on c (x # xs) =
     (if x = c then [] # split_on c xs
      else (case split_on c xs of
              [] \<Rightarrow> [[x]]
            | y # ys \<Rightarrow> (x # y) # ys))"


section \<open>SMTP errors and their classification (smtp/client.ts)\<close>

datatype SmtpErrorType = permanent | temporary | connection | unknown

record SmtpError =
  err_message :: string
  err_type :: SmtpErrorType
  err_code :: "string option"
  err_responseCode :: "int option"
  err_shouldRetry :: bool

text \<open>The fields \<open>message\<close>, \<open>type\<close>, \<open>code\<close>, \<open>responseCode\<close> and \<open>shouldRetry\<close> of
  the class \<open>SmtpError\<close>, and its constructor: the retry flag is a function of the type.\<close>

definition new_SmtpError ::
  "string \<Rightarrow> SmtpErrorType \<Rightarrow> int option \<Rightarrow> string option \<Rightarrow> SmtpError" where
  "new_SmtpError msg ty rc cd =
     \<lparr> err_message = msg, err_type = ty, err_code = cd, err_responseCode = rc,
       err_shouldRetry = (ty = temporary \<or> ty = connection) \<rparr>"

definition HARD_BOUNCE_CODES :: "int list" where
  "HARD_BOUNCE_CODES = [550, 551, 552, 553, 554]"

definition SOFT_BOUNCE_CODES :: "int list" where
  "SOFT_BOUNCE_CODES = [450, 451, 452]"

definition CONNECTION_ERROR_CODES :: "string list" where
  "CONNECTION_ERROR_CODES =
     [''ECONNREFUSED'', ''ECONNRESET'', ''ETIMEDOUT'', ''ENOTFOUND'',
      ''EHOSTUNREACH'', ''ENETUNREACH'', ''ESOCKET'', ''ECONNECTION'']"

text \<open>The error nodemailer throws: a message, an optional string \<open>code\<close> and an optional
  numeric \<open>responseCode\<close>.\<close>

record raw_error =
  raw_message :: string
  raw_code :: "string option"
  raw_responseCode :: "int option"

text \<open>JavaScript truthiness of the two optional fields: a string is truthy when it is
  present and not empty, a number when it is present and not zero.\<close>

definition truthy_string :: "string option \<Rightarrow> bool" where
  "truthy_string x = (case x of None \<Rightarrow> False | Some s \<Rightarrow> s \<noteq> [])"

definition truthy_number :: "int option \<Rightarrow> bool" where
  "truthy_number x = (case x of None \<Rightarrow> False | Some n \<Rightarrow> n \<noteq> 0)"

definition classifySmtpError :: "raw_error \<Rightarrow> SmtpError" where
  "classifySmtpError error =
     (if truthy_string (raw_code error) \<and> the (raw_code error) \<in> set CONNECTION_ERROR_CODES
      then new_SmtpError (raw_message error) connection None (raw_code error)
      else if truthy_number (raw_responseCode error) then
        (let rc = the (raw_responseCode error) in
         if rc \<in> set HARD_BOUNCE_CODES
           then new_SmtpError (raw_message error) permanent (Some rc) None
         else if rc \<in> set SOFT_BOUNCE_CODES
           then new_SmtpError (raw_message error) temporary (Some rc) None
         else if 500 \<le> rc \<and> rc < 600
           then new_SmtpError (raw_message error) permanent (Some rc) None
         else if 400 \<le> rc \<and> rc < 500
           then new_SmtpError (raw_message error) temporary (Some rc) None
         else new_SmtpError (raw_message error) unknown None None)
      else new_SmtpError (raw_message error) unknown None None)"

definition isHardBounce :: "SmtpError \<Rightarrow> bool" where
  "isHardBounce error =
     (err_type error = permanent \<and> err_responseCode error \<noteq> None \<and>
      the (err_responseCode error) \<in> set HARD_BOUNCE_CODES)"


section \<open>The data model (types.ts, db/schema.ts, the SQL schema)\<close>

text \<open>
  Row identifiers are UUIDs in the source; here they are natural numbers, and a new row
  takes the store's counter \<open>next_id\<close> where the database calls
  \<^verbatim>\<open>uuid_generate_v4()\<close>. Instants are milliseconds since the epoch.
  A row and its entity (\<open>toMessage\<close>, \<open>toSuppression\<close>, \<open>toWebhook\<close>,
  \<open>toWebhookDelivery\<close> only rename the columns) are one record.
\<close>

type_synonym uuid = nat
type_synonym timestamp = int

datatype MessageStatus = QUEUED | PROCESSING | SENT | DELIVERED | BOUNCED | FAILED | REJECTED

datatype MessageType = EMAIL | SMS

datatype SuppressionReason = HARD_BOUNCE | SOFT_BOUNCE | COMPLAINT | UNSUBSCRIBE | MANUAL

datatype WebhookDeliveryStatus = WD_PENDING | WD_DELIVERED | WD_FAILED

text \<open>The JSON values the worker puts into a payload. \<open>JIsoTime t\<close> is the string
  \<^verbatim>\<open>new Date(t).toISOString()\<close>; \<open>JId i\<close> is the string of a row identifier.\<close>

datatype json = JString string | JNumber int | JIsoTime timestamp | JId uuid | JUndefined

type_synonym payload = "(string \<times> json) list"

record message =
  m_id :: uuid
  m_api_key_id :: uuid
  m_idempotency_key :: "string option"
  m_type :: MessageType
  m_status :: MessageStatus
  m_from_address :: string
  m_to_address :: string
  m_subject :: "string option"
  m_body :: "string option"
  m_html_body :: "string option"
  m_metadata :: "payload option"
  m_attempts :: int
  m_created_at :: timestamp
  m_sent_at :: "timestamp option"
  m_delivered_at :: "timestamp option"
  m_failed_at :: "timestamp option"
  m_failure_reason :: "string option"

record suppression =
  sup_id :: uuid
  sup_api_key_id :: uuid
  sup_email :: string
  sup_reason :: SuppressionReason
  sup_created_at :: timestamp

record webhook =
  wh_id :: uuid
  wh_api_key_id :: uuid
  wh_url :: string
  wh_events :: "string list"
  wh_secret :: string
  wh_active :: bool
  wh_created_at :: timestamp

record webhook_delivery =
  wd_id :: uuid
  wd_webhook_id :: uuid
  wd_message_id :: "uuid option"
  wd_event :: string
  wd_payload :: payload
  wd_status :: WebhookDeliveryStatus
  wd_attempts :: int
  wd_last_attempt_at :: "timestamp option"
  wd_created_at :: timestamp

record domain =
  dom_id :: uuid
  dom_api_key_id :: uuid
  dom_domain :: string
  dom_verified :: bool
  dom_dkim_selector :: string
  dom_dkim_private_key :: "string option"
  dom_created_at :: timestamp

text \<open>
  The store: the five tables the worker touches, in insertion order. \<open>db_up\<close> says
  whether the driver answers: when it does not, every operation of the client (written
  \<open>db_messages_update\<close> for \<^verbatim>\<open>db.messages.update\<close>, and so on) throws inside
  \<open>withErrorHandling\<close> and comes back as an error result.
\<close>

record store =
  db_up :: bool
  next_id :: uuid
  messages :: "message list"
  suppressions :: "suppression list"
  webhooks :: "webhook list"
  webhook_deliveries :: "webhook_delivery list"
  domains :: "domain list"

definition reason_string :: "SuppressionReason \<Rightarrow> string" where
  "reason_string r = (case r of
       HARD_BOUNCE \<Rightarrow> ''hard_bounce''
     | SOFT_BOUNCE \<Rightarrow> ''soft_bounce''
     | COMPLAINT \<Rightarrow> ''complaint''
     | UNSUBSCRIBE \<Rightarrow> ''unsubscribe''
     | MANUAL \<Rightarrow> ''manual'')"


section \<open>The claim functions of the SQL schema\<close>

text \<open>
  \<^verbatim>\<open>ORDER BY created_at ASC LIMIT 1\<close>: a row of least \<open>created_at\<close>, the first of them in
  table order (the database may return any of them).
\<close>

fun earliest :: "('r \<Rightarrow> timestamp) \<Rightarrow> 'r list \<Rightarrow> 'r option" where
  "earliest created [] = None"
| "earliest created (r # rs) =
     (case earliest created rs of
        None \<Rightarrow> Some r
      | Some r' \<Rightarrow> if created r \<le> created r' then Some r else Some r')"

text \<open>
  \<open>claim_next_message\<close> is one SQL statement. The inner \<^verbatim>\<open>SELECT ... FOR UPDATE SKIP
  LOCKED\<close> passes over the rows whose identifiers are in \<open>locked\<close>, the rows other
  transactions hold a lock on at that moment; the outer \<^verbatim>\<open>UPDATE ... RETURNING *\<close> gives
  back the rows it changed.
\<close>

definition claim_next_message_select :: "uuid list \<Rightarrow> store \<Rightarrow> uuid option" where
  "claim_next_message_select locked s =
     map_option m_id
       (earliest m_created_at
          (filter (\<lambda>r. m_status r = QUEUED \<and> m_id r \<notin> set locked) (messages s)))"

definition claim_next_message :: "uuid list \<Rightarrow> store \<Rightarrow> message list \<times> store" where
  "claim_next_message locked s =
     (case claim_next_message_select locked s of
        None \<Rightarrow> ([], s)
      | Some i \<Rightarrow>
          (let rows = map (\<lambda>r. if m_id r = i then r\<lparr>m_status := PROCESSING\<rparr> else r)
                          (messages s)
           in (filter (\<lambda>r. m_id r = i) rows, s\<lparr>messages := rows\<rparr>)))"

definition claim_next_webhook_delivery_select ::
  "uuid list \<Rightarrow> timestamp \<Rightarrow> store \<Rightarrow> uuid option" where
  "claim_next_webhook_delivery_select locked now s =
     map_option wd_id
       (earliest wd_created_at
          (filter (\<lambda>r. wd_status r = WD_PENDING
                      \<and> (case wd_last_attempt_at r of
                            None \<Rightarrow> True
                          | Some t \<Rightarrow> t < now - 30000)
                      \<and> wd_id r \<notin> set locked)
                  (webhook_deliveries s)))"

definition claim_next_webhook_delivery ::
  "uuid list \<Rightarrow> timestamp \<Rightarrow> store \<Rightarrow> webhook_delivery list \<times> store" where
  "claim_next_webhook_delivery locked now s =
     (case claim_next_webhook_delivery_select locked now s of
        None \<Rightarrow> ([], s)
      | Some i \<Rightarrow>
          (let rows = map (\<lambda>r. if wd_id r = i
                                then r\<lparr>wd_status := WD_PENDING,
                                       wd_attempts := wd_attempts r + 1,
                                       wd_last_attempt_at := Some now\<rparr>
                                else r)
                          (webhook_deliveries s)
           in (filter (\<lambda>r. wd_id r = i) rows, s\<lparr>webhook_deliveries := rows\<rparr>)))"


section \<open>The database client (db/client.ts)\<close>

datatype DbError = DUPLICATE_RECORD | CONSTRAINT_VIOLATION | CONNECTION_ERROR | DATABASE_ERROR

text \<open>
  \<open>withErrorHandling\<close> turns what the operation throws into an error result. An
  operation of the model throws when the driver does not answer, and an insert throws
  the unique violation 23505 where this section says so. Every row the worker inserts
  refers to rows it has just read, so the foreign keys of the schema are not checked here.
\<close>

type_synonym 'a db_result = "DbError + 'a"

record MessageUpdate =
  mu_status :: "MessageStatus option"
  mu_attempts :: "int option"
  mu_sent_at :: "timestamp option"
  mu_delivered_at :: "timestamp option"
  mu_failed_at :: "timestamp option"
  mu_failure_reason :: "string option"

definition no_MessageUpdate :: MessageUpdate where
  "no_MessageUpdate =
     \<lparr> mu_status = None, mu_attempts = None, mu_sent_at = None, mu_delivered_at = None,
       mu_failed_at = None, mu_failure_reason = None \<rparr>"

text \<open>\<^verbatim>\<open>SET ${sql(data)}\<close>: the columns named in \<open>data\<close> take its values, the others
  keep theirs.\<close>

definition set_message_columns :: "MessageUpdate \<Rightarrow> message \<Rightarrow> message" where
  "set_message_columns data r =
     r\<lparr> m_status := (case mu_status data of None \<Rightarrow> m_status r | Some v \<Rightarrow> v),
        m_attempts := (case mu_attempts data of None \<Rightarrow> m_attempts r | Some v \<Rightarrow> v),
        m_sent_at := (case mu_sent_at data of None \<Rightarrow> m_sent_at r | Some v \<Rightarrow> Some v),
        m_delivered_at :=
          (case mu_delivered_at data of None \<Rightarrow> m_delivered_at r | Some v \<Rightarrow> Some v),
        m_failed_at := (case mu_failed_at data of None \<Rightarrow> m_failed_at r | Some v \<Rightarrow> Some v),
        m_failure_reason :=
          (case mu_failure_reason data of None \<Rightarrow> m_failure_reason r | Some v \<Rightarrow> Some v) \<rparr>"

definition db_messages_findById :: "store \<Rightarrow> uuid \<Rightarrow> message option db_result" where
  "db_messages_findById s i =
     (if db_up s then Inr (find (\<lambda>r. m_id r = i) (messages s)) else Inl CONNECTION_ERROR)"

definition db_messages_update ::
  "store \<Rightarrow> uuid \<Rightarrow> MessageUpdate \<Rightarrow> message option db_result \<times> store" where
  "db_messages_update s i data =
     (if \<not> db_up s then (Inl CONNECTION_ERROR, s)
      else if data = no_MessageUpdate
        then (Inr (case db_messages_findById s i of Inl _ \<Rightarrow> None | Inr v \<Rightarrow> v), s)
      else
        (let rows = map (\<lambda>r. if m_id r = i then set_message_columns data r else r)
                        (messages s)
         in (Inr (find (\<lambda>r. m_id r = i) rows), s\<lparr>messages := rows\<rparr>)))"

definition db_messages_claimNext ::
  "uuid list \<Rightarrow> store \<Rightarrow> message option db_result \<times> store" where
  "db_messages_claimNext locked s =
     (if \<not> db_up s then (Inl CONNECTION_ERROR, s)
      else
        (case claim_next_message locked s of
           (rows, s') \<Rightarrow> (Inr (case rows of [] \<Rightarrow> None | r # _ \<Rightarrow> Some r), s')))"

definition db_suppressions_findByEmail ::
  "lower_fn \<Rightarrow> store \<Rightarrow> uuid \<Rightarrow> string \<Rightarrow> suppression option db_result" where
  "db_suppressions_findByEmail toLowerCase s apiKeyId email =
     (if db_up s
      then Inr (find (\<lambda>r. sup_api_key_id r = apiKeyId \<and> sup_email r = toLowerCase email)
                     (suppressions s))
      else Inl CONNECTION_ERROR)"

record SuppressionInsert =
  si_id :: "uuid option"
  si_api_key_id :: uuid
  si_email :: string
  si_reason :: SuppressionReason

text \<open>
  \<open>db_suppressions_create\<close>: the insert \<^verbatim>\<open>ON CONFLICT (api_key_id, email) DO NOTHING
  RETURNING *\<close> returns no row when a row with that key exists, and the client then
  selects the rows with that key and answers with the first. A caller's own \<open>id\<close>
  that is already taken is the unique violation of the primary key; an empty selection
  would make \<open>toSuppression\<close> throw on \<open>undefined\<close>.
\<close>

definition db_suppressions_create ::
  "lower_fn \<Rightarrow> store \<Rightarrow> timestamp \<Rightarrow> SuppressionInsert \<Rightarrow> suppression db_result \<times> store" where
  "db_suppressions_create toLowerCase s now data =
     (if \<not> db_up s then (Inl CONNECTION_ERROR, s)
      else
        (let normalizedEmail = toLowerCase (si_email data);
             same_key = (\<lambda>r. sup_api_key_id r = si_api_key_id data
                             \<and> sup_email r = normalizedEmail);
             conflict = list_ex same_key (suppressions s);
             new_row = \<lparr> sup_id = (case si_id data of None \<Rightarrow> next_id s | Some i \<Rightarrow> i),
                         sup_api_key_id = si_api_key_id data,
                         sup_email = normalizedEmail,
                         sup_reason = si_reason data,
                         sup_created_at = now \<rparr>
         in if \<not> conflict \<and> si_id data \<noteq> None
                \<and> list_ex (\<lambda>r. Some (sup_id r) = si_id data) (suppressions s)
            then (Inl DUPLICATE_RECORD, s)
            else
              (let rows = (if conflict then [] else [new_row]);
                   s' = (if conflict then s
                         else s\<lparr> suppressions := suppressions s @ [new_row],
                                 next_id := max (next_id s) (sup_id new_row) + 1 \<rparr>)
               in if length rows = 0 then
                    (case filter same_key (suppressions s') of
                       [] \<Rightarrow> (Inl DATABASE_ERROR, s')
                     | existing # _ \<Rightarrow> (Inr existing, s'))
                  else (Inr (hd rows), s'))))"

definition db_webhooks_findById :: "store \<Rightarrow> uuid \<Rightarrow> webhook option db_result" where
  "db_webhooks_findById s i =
     (if db_up s then Inr (find (\<lambda>r. wh_id r = i) (webhooks s)) else Inl CONNECTION_ERROR)"

text \<open>\<^verbatim>\<open>ORDER BY created_at DESC\<close>: the newest webhook first.\<close>

definition db_webhooks_findActiveByApiKey :: "store \<Rightarrow> uuid \<Rightarrow> webhook list db_result" where
  "db_webhooks_findActiveByApiKey s apiKeyId =
     (if db_up s
      then Inr (rev (sort_key wh_created_at
                       (filter (\<lambda>r. wh_api_key_id r = apiKeyId \<and> wh_active r) (webhooks s))))
      else Inl CONNECTION_ERROR)"

definition db_domains_findByDomain :: "store \<Rightarrow> uuid \<Rightarrow> string \<Rightarrow> domain option db_result" where
  "db_domains_findByDomain s apiKeyId d =
     (if db_up s
      then Inr (find (\<lambda>r. dom_api_key_id r = apiKeyId \<and> dom_domain r = d) (domains s))
      else Inl CONNECTION_ERROR)"

record WebhookDeliveryInsert =
  wdi_id :: "uuid option"
  wdi_webhook_id :: uuid
  wdi_message_id :: "uuid option"
  wdi_event :: string
  wdi_payload :: payload
  wdi_status :: "WebhookDeliveryStatus option"
  wdi_attempts :: "int option"

text \<open>\<^verbatim>\<open>sql.json\<close> serialises the payload: a key whose value is \<open>undefined\<close> is left
  out.\<close>

definition sql_json :: "payload \<Rightarrow> payload" where
  "sql_json p = filter (\<lambda>kv. snd kv \<noteq> JUndefined) p"

definition delivery_id_taken :: "uuid option \<Rightarrow> store \<Rightarrow> bool" where
  "delivery_id_taken i s = (i \<noteq> None \<and> list_ex (\<lambda>r. Some (wd_id r) = i) (webhook_deliveries s))"

definition db_webhookDeliveries_create ::
  "store \<Rightarrow> timestamp \<Rightarrow> WebhookDeliveryInsert \<Rightarrow> webhook_delivery db_result \<times> store" where
  "db_webhookDeliveries_create s now data =
     (if \<not> db_up s then (Inl CONNECTION_ERROR, s)
      else if delivery_id_taken (wdi_id data) s then (Inl DUPLICATE_RECORD, s)
      else
        (let new_row =
               \<lparr> wd_id = (case wdi_id data of None \<Rightarrow> next_id s | Some i \<Rightarrow> i),
                 wd_webhook_id = wdi_webhook_id data,
                 wd_message_id = wdi_message_id data,
                 wd_event = wdi_event data,
                 wd_payload = sql_json (wdi_payload data),
                 wd_status = (case wdi_status data of None \<Rightarrow> WD_PENDING | Some v \<Rightarrow> v),
                 wd_attempts = (case wdi_attempts data of None \<Rightarrow> 0 | Some v \<Rightarrow> v),
                 wd_last_attempt_at = None,
                 wd_created_at = now \<rparr>
         in (Inr new_row,
             s\<lparr> webhook_deliveries := webhook_deliveries s @ [new_row],
                next_id := max (next_id s) (wd_id new_row) + 1 \<rparr>)))"


record WebhookDeliveryUpdate =
  wdu_status :: "WebhookDeliveryStatus option"
  wdu_attempts :: "int option"
  wdu_last_attempt_at :: "timestamp option"

definition no_WebhookDeliveryUpdate :: WebhookDeliveryUpdate where
  "no_WebhookDeliveryUpdate =
     \<lparr> wdu_status = None, wdu_attempts = None, wdu_last_attempt_at = None \<rparr>"

definition set_delivery_columns :: "WebhookDeliveryUpdate \<Rightarrow> webhook_delivery \<Rightarrow> webhook_delivery"
  where
  "set_delivery_columns data r =
     r\<lparr> wd_status := (case wdu_status data of None \<Rightarrow> wd_status r | Some v \<Rightarrow> v),
        wd_attempts := (case wdu_attempts data of None \<Rightarrow> wd_attempts r | Some v \<Rightarrow> v),
        wd_last_attempt_at :=
          (case wdu_last_attempt_at data of None \<Rightarrow> wd_last_attempt_at r | Some v \<Rightarrow> Some v) \<rparr>"

definition db_webhookDeliveries_update ::
  "store \<Rightarrow> uuid \<Rightarrow> WebhookDeliveryUpdate \<Rightarrow> webhook_delivery option db_result \<times> store" where
  "db_webhookDeliveries_update s i data =
     (if \<not> db_up s then (Inl CONNECTION_ERROR, s)
      else if data = no_WebhookDeliveryUpdate
        then (Inr (find (\<lambda>r. wd_id r = i) (webhook_deliveries s)), s)
      else
        (let rows = map (\<lambda>r. if wd_id r = i then set_delivery_columns data r else r)
                        (webhook_deliveries s)
         in (Inr (find (\<lambda>r. wd_id r = i) rows), s\<lparr>webhook_deliveries := rows\<rparr>)))"

definition db_webhookDeliveries_claimNext ::
  "uuid list \<Rightarrow> timestamp \<Rightarrow> store \<Rightarrow> webhook_delivery option db_result \<times> store" where
  "db_webhookDeliveries_claimNext locked now s =
     (if \<not> db_up s then (Inl CONNECTION_ERROR, s)
      else
        (case claim_next_webhook_delivery locked now s of
           (rows, s') \<Rightarrow> (Inr (case rows of [] \<Rightarrow> None | r # _ \<Rightarrow> Some r), s')))"


section \<open>The email processor (processors/email.processor.ts)\<close>

record WorkerConfig =
  maxRetries :: int
  retryDelayMs :: int
  maxWebhookRetries :: int

record EmailMessage =
  em_from :: string
  em_to :: string
  em_subject :: string
  em_text :: "string option"
  em_html :: "string option"
  em_messageId :: string

record DkimConfig =
  domainName :: string
  selector :: string
  privateKey :: string

text \<open>
  What \<open>smtp.send\<close> answers when the processor calls it. \<open>SmtpClient.send\<close> catches
  whatever the transport throws and resolves to a failure carrying the classified error;
  \<open>Send_throws\<close> is a send that rejects instead, which the processor does not catch
  itself.
\<close>

datatype SendResult = Send_success string | Send_failure SmtpError

datatype smtp_reply = Send_resolves SendResult | Send_throws string

definition SmtpClient_send :: "(string + raw_error) \<Rightarrow> smtp_reply" where
  "SmtpClient_send transport =
     (case transport of
        Inl smtpMessageId \<Rightarrow> Send_resolves (Send_success smtpMessageId)
      | Inr e \<Rightarrow> Send_resolves (Send_failure (classifySmtpError e)))"

record ProcessResult =
  pr_messageId :: uuid
  pr_success :: bool
  pr_status :: MessageStatus
  pr_error :: "string option"
  pr_shouldRetry :: "bool option"

datatype 'a completion = Returned 'a | Thrown string

text \<open>What one call leaves behind: the store, the messages handed to \<open>smtp.send\<close>
  (with the DKIM configuration used), and what the call returned or threw.\<close>

record pm_out =
  pm_store :: store
  pm_sends :: "(EmailMessage \<times> DkimConfig option) list"
  pm_result :: "ProcessResult completion"

text \<open>
  \<open>triggerWebhookEvent\<close>: one pending delivery row for each active webhook of the tenant
  that subscribes to the event. The keys of \<open>additionalPayload\<close> differ from the three
  fixed ones at every call, so the object spread is an append. A step of the worker
  happens at one instant \<open>now\<close>.
\<close>

definition triggerWebhookEvent ::
  "store \<Rightarrow> timestamp \<Rightarrow> uuid \<Rightarrow> uuid \<Rightarrow> string \<Rightarrow> payload \<Rightarrow> store" where
  "triggerWebhookEvent s now apiKeyId messageId event additionalPayload =
     (case db_webhooks_findActiveByApiKey s apiKeyId of
        Inl _ \<Rightarrow> s
      | Inr hooks \<Rightarrow>
          if length hooks = 0 then s
          else
            (let payload = [(''event'', JString event),
                            (''timestamp'', JIsoTime now),
                            (''messageId'', JId messageId)] @ additionalPayload
             in fold (\<lambda>webhook st.
                        if event \<in> set (wh_events webhook)
                        then snd (db_webhookDeliveries_create st now
                                    \<lparr> wdi_id = None,
                                      wdi_webhook_id = wh_id webhook,
                                      wdi_message_id = Some messageId,
                                      wdi_event = event,
                                      wdi_payload = payload,
                                      wdi_status = Some WD_PENDING,
                                      wdi_attempts = None \<rparr>)
                        else st)
                     hooks s))"

definition getDkimConfig :: "store \<Rightarrow> message \<Rightarrow> DkimConfig option" where
  "getDkimConfig s message =
     (case split_on CHR ''@'' (m_from_address message) of
        _ # fromDomain # _ \<Rightarrow>
          if fromDomain = [] then None
          else
            (case db_domains_findByDomain s (m_api_key_id message) fromDomain of
               Inl _ \<Rightarrow> None
             | Inr None \<Rightarrow> None
             | Inr (Some d) \<Rightarrow>
                 (case dom_dkim_private_key d of
                    None \<Rightarrow> None
                  | Some k \<Rightarrow>
                      if \<not> dom_verified d \<or> k = [] then None
                      else Some \<lparr> domainName = dom_domain d,
                                  selector = dom_dkim_selector d,
                                  privateKey = k \<rparr>))
      | _ \<Rightarrow> None)"

record suppression_check =
  suppressed :: bool
  reason :: "SuppressionReason option"

definition checkSuppression :: "lower_fn \<Rightarrow> store \<Rightarrow> uuid \<Rightarrow> string \<Rightarrow> suppression_check" where
  "checkSuppression toLowerCase s apiKeyId email =
     (case db_suppressions_findByEmail toLowerCase s apiKeyId email of
        Inl _ \<Rightarrow> \<lparr> suppressed = False, reason = None \<rparr>
      | Inr (Some row) \<Rightarrow> \<lparr> suppressed = True, reason = Some (sup_reason row) \<rparr>
      | Inr None \<Rightarrow> \<lparr> suppressed = False, reason = None \<rparr>)"

definition addToSuppression ::
  "lower_fn \<Rightarrow> store \<Rightarrow> timestamp \<Rightarrow> uuid \<Rightarrow> string \<Rightarrow> SuppressionReason \<Rightarrow> store" where
  "addToSuppression toLowerCase s now apiKeyId email r =
     snd (db_suppressions_create toLowerCase s now
            \<lparr> si_id = None, si_api_key_id = apiKeyId, si_email = email, si_reason = r \<rparr>)"

definition template_reason :: "SuppressionReason option \<Rightarrow> string" where
  "template_reason r = (case r of None \<Rightarrow> ''undefined'' | Some v \<Rightarrow> reason_string v)"


text \<open>
  \<open>processMessage\<close>. The back-off delay the source computes before a retry is only
  written to the debug log, so it has no counterpart here. \<open>ProcessResult.status\<close> ranges
  over four of the message statuses.
\<close>

definition processMessage ::
  "lower_fn \<Rightarrow> WorkerConfig \<Rightarrow> smtp_reply \<Rightarrow> timestamp \<Rightarrow> store \<Rightarrow> message \<Rightarrow> pm_out" where
  "processMessage toLowerCase config reply now s message =
     (let messageId = m_id message;
          suppression = checkSuppression toLowerCase s (m_api_key_id message) (m_to_address message)
      in
      if suppressed suppression then
        \<lparr> pm_store = snd (db_messages_update s messageId
                       (no_MessageUpdate
                          \<lparr> mu_status := Some REJECTED,
                            mu_failed_at := Some now,
                            mu_failure_reason :=
                              Some (''Recipient suppressed: '' @ template_reason (reason suppression)) \<rparr>)),
          pm_sends = [],
          pm_result = Returned
            \<lparr> pr_messageId = messageId, pr_success = False, pr_status = REJECTED,
              pr_error = Some (''Recipient suppressed: '' @ template_reason (reason suppression)),
              pr_shouldRetry = Some False \<rparr> \<rparr>
      else
        (let dkimConfig = getDkimConfig s message;
             request =
               (\<lparr> em_from = m_from_address message,
                  em_to = m_to_address message,
                  em_subject = (case m_subject message of None \<Rightarrow> [] | Some v \<Rightarrow> v),
                  em_text = m_body message,
                  em_html = m_html_body message,
                  em_messageId = ''<'' @ show_nat messageId @ ''@mailforge>'' \<rparr>,
                dkimConfig)
         in
         case reply of
           Send_throws e \<Rightarrow> \<lparr> pm_store = s, pm_sends = [request], pm_result = Thrown e \<rparr>
         | Send_resolves (Send_success smtpMessageId) \<Rightarrow>
             (let s1 = snd (db_messages_update s messageId
                              (no_MessageUpdate
                                 \<lparr> mu_status := Some SENT, mu_sent_at := Some now \<rparr>));
                  s2 = triggerWebhookEvent s1 now (m_api_key_id message) messageId
                         ''message.sent'' [(''smtpMessageId'', JString smtpMessageId)]
              in \<lparr> pm_store = s2, pm_sends = [request],
                   pm_result = Returned
                     \<lparr> pr_messageId = messageId, pr_success = True, pr_status = SENT,
                       pr_error = None, pr_shouldRetry = None \<rparr> \<rparr>)
         | Send_resolves (Send_failure error) \<Rightarrow>
             (let newAttempts = m_attempts message + 1;
                  maxRetriesReached = (newAttempts \<ge> maxRetries config);
                  shouldRetry = (err_shouldRetry error \<and> \<not> maxRetriesReached)
              in
              if shouldRetry then
                \<lparr> pm_store = snd (db_messages_update s messageId
                               (no_MessageUpdate
                                  \<lparr> mu_status := Some QUEUED,
                                    mu_attempts := Some newAttempts,
                                    mu_failure_reason := Some (err_message error) \<rparr>)),
                  pm_sends = [request],
                  pm_result = Returned
                    \<lparr> pr_messageId = messageId, pr_success = False, pr_status = QUEUED,
                      pr_error = Some (err_message error), pr_shouldRetry = Some True \<rparr> \<rparr>
              else
                (let s1 = snd (db_messages_update s messageId
                                 (no_MessageUpdate
                                    \<lparr> mu_status := Some FAILED,
                                      mu_attempts := Some newAttempts,
                                      mu_failed_at := Some now,
                                      mu_failure_reason := Some (err_message error) \<rparr>));
                     s2 = (if isHardBounce error then
                             triggerWebhookEvent
                               (addToSuppression toLowerCase s1 now (m_api_key_id message)
                                  (m_to_address message) HARD_BOUNCE)
                               now (m_api_key_id message) messageId ''message.bounced''
                               [(''bounceType'', JString ''hard''),
                                (''bounceCode'',
                                   (case err_responseCode error of
                                      None \<Rightarrow> JUndefined | Some c \<Rightarrow> JNumber c)),
                                (''bounceMessage'', JString (err_message error))]
                           else
                             triggerWebhookEvent s1 now (m_api_key_id message) messageId
                               ''message.failed''
                               [(''failureReason'', JString (err_message error))])
                 in \<lparr> pm_store = s2, pm_sends = [request],
                      pm_result = Returned
                        \<lparr> pr_messageId = messageId, pr_success = False, pr_status = FAILED,
                          pr_error = Some (err_message error),
                          pr_shouldRetry = Some False \<rparr> \<rparr>))))"

text \<open>
  \<open>processNext\<close> of the email processor: claim, then \<open>processMessage\<close> under the
  \<^verbatim>\<open>try\<close> whose handler puts the message back in the queue. \<open>recently\<close> is the
  processor's flag \<open>recentlyFoundMessages\<close>.
\<close>

record pn_out =
  pn_store :: store
  pn_sends :: "(EmailMessage \<times> DkimConfig option) list"
  pn_result :: "ProcessResult option"
  pn_recentlyFoundMessages :: bool

definition processNext ::
  "lower_fn \<Rightarrow> WorkerConfig \<Rightarrow> smtp_reply \<Rightarrow> uuid list \<Rightarrow> timestamp \<Rightarrow> bool \<Rightarrow> store \<Rightarrow> pn_out" where
  "processNext toLowerCase config reply locked now recently s =
     (case db_messages_claimNext locked s of
        (Inl _, s1) \<Rightarrow>
          \<lparr> pn_store = s1, pn_sends = [], pn_result = None,
            pn_recentlyFoundMessages = recently \<rparr>
      | (Inr None, s1) \<Rightarrow>
          \<lparr> pn_store = s1, pn_sends = [], pn_result = None,
            pn_recentlyFoundMessages = False \<rparr>
      | (Inr (Some message), s1) \<Rightarrow>
          (let out = processMessage toLowerCase config reply now s1 message
           in case pm_result out of
                Returned r \<Rightarrow>
                  \<lparr> pn_store = pm_store out, pn_sends = pm_sends out, pn_result = Some r,
                    pn_recentlyFoundMessages = True \<rparr>
              | Thrown e \<Rightarrow>
                  \<lparr> pn_store = snd (db_messages_update (pm_store out) (m_id message)
                                 (no_MessageUpdate
                                    \<lparr> mu_status := Some QUEUED,
                                      mu_attempts := Some (m_attempts message + 1),
                                      mu_failure_reason := Some (''Processing error: '' @ e) \<rparr>)),
                    pn_sends = pm_sends out,
                    pn_result = Some
                      \<lparr> pr_messageId = m_id message, pr_success = False, pr_status = QUEUED,
                        pr_error = Some e, pr_shouldRetry = Some True \<rparr>,
                    pn_recentlyFoundMessages = True \<rparr>))"


section \<open>The webhook processor (processors/webhook.processor.ts)\<close>

text \<open>
  The keyed hash \<^verbatim>\<open>createHmac('sha256', secret)\<close> of Node and \<^verbatim>\<open>JSON.stringify\<close> are
  parameters: \<open>hmac secret data\<close> is the digest as bytes, \<open>stringify\<close> the serialiser.
\<close>

type_synonym hmac_fn = "string \<Rightarrow> string \<Rightarrow> 8 word list"

definition generateSignature :: "hmac_fn \<Rightarrow> string \<Rightarrow> string \<Rightarrow> string" where
  "generateSignature hmac payload secret = hex (hmac secret payload)"

definition generateWebhookHeaders ::
  "hmac_fn \<Rightarrow> timestamp \<Rightarrow> string \<Rightarrow> string \<Rightarrow> string \<Rightarrow> (string \<times> string) list" where
  "generateWebhookHeaders hmac now payload secret event =
     (let timestamp = show_int now;
          signatureData = timestamp @ ''.'' @ payload;
          signature = generateSignature hmac signatureData secret
      in [(''Content-Type'', ''application/json''),
          (''X-OpenSend-Event'', event),
          (''X-OpenSend-Timestamp'', timestamp),
          (''X-OpenSend-Signature'', ''v1='' @ signature)])"

record http_request =
  req_url :: string
  req_method :: string
  req_headers :: "(string \<times> string) list"
  req_body :: string

text \<open>What \<open>fetch\<close> does with the request: a response with its status and status text,
  the abort after 30 seconds, or any other failure with its message.\<close>

datatype fetch_reply = Response int string | AbortError | FetchError string

record dispatch_result =
  dr_success :: bool
  dr_status :: "int option"
  dr_error :: "string option"

definition getWebhook :: "store \<Rightarrow> uuid \<Rightarrow> webhook option" where
  "getWebhook s webhookId =
     (case db_webhooks_findById s webhookId of Inl _ \<Rightarrow> None | Inr v \<Rightarrow> v)"

definition dispatchWebhook ::
  "hmac_fn \<Rightarrow> (payload \<Rightarrow> string) \<Rightarrow> fetch_reply \<Rightarrow> timestamp \<Rightarrow> webhook_delivery \<Rightarrow> webhook
     \<Rightarrow> http_request \<times> dispatch_result" where
  "dispatchWebhook hmac stringify reply now delivery webhook =
     (let payloadStr = stringify (wd_payload delivery);
          headers = generateWebhookHeaders hmac now payloadStr (wh_secret webhook)
                      (wd_event delivery);
          request = \<lparr> req_url = wh_url webhook, req_method = ''POST'',
                      req_headers = headers, req_body = payloadStr \<rparr>
      in (request,
          (case reply of
             Response status statusText \<Rightarrow>
               if 200 \<le> status \<and> status < 300
               then \<lparr> dr_success = True, dr_status = Some status, dr_error = None \<rparr>
               else \<lparr> dr_success = False, dr_status = Some status,
                      dr_error = Some (''HTTP '' @ show_int status @ '': '' @ statusText) \<rparr>
           | AbortError \<Rightarrow>
               \<lparr> dr_success = False, dr_status = None,
                 dr_error = Some ''Request timed out after 30 seconds'' \<rparr>
           | FetchError msg \<Rightarrow>
               \<lparr> dr_success = False, dr_status = None,
                 dr_error = Some (''Request failed: '' @ msg) \<rparr>)))"

record WebhookProcessResult =
  wr_deliveryId :: uuid
  wr_success :: bool
  wr_status :: WebhookDeliveryStatus
  wr_httpStatus :: "int option"
  wr_error :: "string option"
  wr_shouldRetry :: "bool option"

record pd_out =
  pd_store :: store
  pd_posts :: "http_request list"
  pd_result :: WebhookProcessResult

definition processDelivery ::
  "WorkerConfig \<Rightarrow> hmac_fn \<Rightarrow> (payload \<Rightarrow> string) \<Rightarrow> fetch_reply \<Rightarrow> timestamp \<Rightarrow> store
     \<Rightarrow> webhook_delivery \<Rightarrow> pd_out" where
  "processDelivery config hmac stringify reply now s delivery =
     (let deliveryId = wd_id delivery;
          gave_up = (\<lambda>msg.
            \<lparr> pd_store = snd (db_webhookDeliveries_update s deliveryId
                           \<lparr> wdu_status = Some WD_FAILED,
                             wdu_attempts = Some (wd_attempts delivery + 1),
                             wdu_last_attempt_at = Some now \<rparr>),
              pd_posts = [],
              pd_result =
                \<lparr> wr_deliveryId = deliveryId, wr_success = False, wr_status = WD_FAILED,
                  wr_httpStatus = None, wr_error = Some msg, wr_shouldRetry = Some False \<rparr> \<rparr>)
      in
      case getWebhook s (wd_webhook_id delivery) of
        None \<Rightarrow> gave_up ''Webhook configuration not found''
      | Some webhook \<Rightarrow>
          if \<not> wh_active webhook then gave_up ''Webhook is inactive''
          else
            (case dispatchWebhook hmac stringify reply now delivery webhook of
               (request, result) \<Rightarrow>
                 (let newAttempts = wd_attempts delivery + 1 in
                  if dr_success result then
                    \<lparr> pd_store = snd (db_webhookDeliveries_update s deliveryId
                                   \<lparr> wdu_status = Some WD_DELIVERED,
                                     wdu_attempts = Some newAttempts,
                                     wdu_last_attempt_at = Some now \<rparr>),
                      pd_posts = [request],
                      pd_result =
                        \<lparr> wr_deliveryId = deliveryId, wr_success = True,
                          wr_status = WD_DELIVERED, wr_httpStatus = dr_status result,
                          wr_error = None, wr_shouldRetry = None \<rparr> \<rparr>
                  else
                    (let maxRetriesReached = (newAttempts \<ge> maxWebhookRetries config);
                         shouldRetry = (\<not> maxRetriesReached)
                     in
                     if shouldRetry then
                       \<lparr> pd_store = snd (db_webhookDeliveries_update s deliveryId
                                      \<lparr> wdu_status = Some WD_PENDING,
                                        wdu_attempts = Some newAttempts,
                                        wdu_last_attempt_at = Some now \<rparr>),
                         pd_posts = [request],
                         pd_result =
                           \<lparr> wr_deliveryId = deliveryId, wr_success = False,
                             wr_status = WD_PENDING, wr_httpStatus = dr_status result,
                             wr_error = dr_error result, wr_shouldRetry = Some True \<rparr> \<rparr>
                     else
                       \<lparr> pd_store = snd (db_webhookDeliveries_update s deliveryId
                                      \<lparr> wdu_status = Some WD_FAILED,
                                        wdu_attempts = Some newAttempts,
                                        wdu_last_attempt_at = Some now \<rparr>),
                         pd_posts = [request],
                         pd_result =
                           \<lparr> wr_deliveryId = deliveryId, wr_success = False,
                             wr_status = WD_FAILED, wr_httpStatus = dr_status result,
                             wr_error = dr_error result, wr_shouldRetry = Some False \<rparr> \<rparr>))))"

text \<open>
  \<open>processNext\<close> of the webhook processor. Nothing \<open>processDelivery\<close> calls throws
  (the client returns results, \<open>dispatchWebhook\<close> catches what \<open>fetch\<close> throws), so the
  handler of its \<^verbatim>\<open>try\<close> is never entered. \<open>recently\<close> is the flag
  \<open>recentlyFoundDeliveries\<close>.
\<close>

record wn_out =
  wn_store :: store
  wn_posts :: "http_request list"
  wn_result :: "WebhookProcessResult option"
  wn_recentlyFoundDeliveries :: bool

definition webhook_processNext ::
  "WorkerConfig \<Rightarrow> hmac_fn \<Rightarrow> (payload \<Rightarrow> string) \<Rightarrow> fetch_reply \<Rightarrow> uuid list \<Rightarrow> timestamp
     \<Rightarrow> bool \<Rightarrow> store \<Rightarrow> wn_out" where
  "webhook_processNext config hmac stringify reply locked now recently s =
     (case db_webhookDeliveries_claimNext locked now s of
        (Inl _, s1) \<Rightarrow>
          \<lparr> wn_store = s1, wn_posts = [], wn_result = None,
            wn_recentlyFoundDeliveries = recently \<rparr>
      | (Inr None, s1) \<Rightarrow>
          \<lparr> wn_store = s1, wn_posts = [], wn_result = None,
            wn_recentlyFoundDeliveries = False \<rparr>
      | (Inr (Some delivery), s1) \<Rightarrow>
          (let out = processDelivery config hmac stringify reply now s1 delivery
           in \<lparr> wn_store = pd_store out, wn_posts = pd_posts out,
                wn_result = Some (pd_result out),
                wn_recentlyFoundDeliveries = True \<rparr>))"

text \<open>
  The dispatcher woken at the instants \<open>ts\<close> in turn, one \<open>processNext\<close> at each, the
  endpoint answering \<open>reply\<close> every time: the store at the end and the requests posted.
\<close>

fun dispatch_rounds ::
  "WorkerConfig \<Rightarrow> hmac_fn \<Rightarrow> (payload \<Rightarrow> string) \<Rightarrow> fetch_reply \<Rightarrow> timestamp list \<Rightarrow> store
     \<Rightarrow> store \<times> http_request list" where
  "dispatch_rounds config hmac stringify reply [] s = (s, [])"
| "dispatch_rounds config hmac stringify reply (t # ts) s =
     (let out = webhook_processNext config hmac stringify reply [] t True s;
          rest = dispatch_rounds config hmac stringify reply ts (wn_store out)
      in (fst rest, wn_posts out @ snd rest))"


section \<open>Notions used in the statements\<close>

text \<open>
  The network codes, written out: connection refused, reset, timed out, name not found,
  host unreachable, network unreachable, and the two codes nodemailer gives to a socket
  error and to a failed connection.
\<close>

definition network_codes :: "string set" where
  "network_codes =
     {''ECONNREFUSED'', ''ECONNRESET'', ''ETIMEDOUT'', ''ENOTFOUND'',
      ''EHOSTUNREACH'', ''ENETUNREACH'', ''ESOCKET'', ''ECONNECTION''}"

text \<open>An error carries one of the network codes.\<close>

definition has_network_code :: "raw_error \<Rightarrow> bool" where
  "has_network_code e = (case raw_code e of None \<Rightarrow> False | Some c \<Rightarrow> c \<in> network_codes)"

text \<open>The tenant has a suppression row for the address, compared in lower case:
  the row \<open>suppressions.findByEmail\<close> looks for.\<close>

definition is_suppressed :: "lower_fn \<Rightarrow> store \<Rightarrow> uuid \<Rightarrow> string \<Rightarrow> bool" where
  "is_suppressed toLowerCase s apiKeyId email =
     list_ex (\<lambda>r. sup_api_key_id r = apiKeyId \<and> sup_email r = toLowerCase email) (suppressions s)"

text \<open>The active webhooks of the tenant that subscribe to the event, newest first.\<close>

definition subscribers :: "store \<Rightarrow> uuid \<Rightarrow> string \<Rightarrow> webhook list" where
  "subscribers s apiKeyId event =
     filter (\<lambda>w. event \<in> set (wh_events w))
       (rev (sort_key wh_created_at
               (filter (\<lambda>r. wh_api_key_id r = apiKeyId \<and> wh_active r) (webhooks s))))"

text \<open>A delivery row as \<open>triggerWebhookEvent\<close> inserts it: pending, never attempted.\<close>

definition fresh_delivery ::
  "timestamp \<Rightarrow> uuid \<Rightarrow> string \<Rightarrow> payload \<Rightarrow> webhook_delivery \<Rightarrow> bool" where
  "fresh_delivery now messageId event p d =
     (wd_message_id d = Some messageId \<and> wd_event d = event \<and> wd_payload d = sql_json p \<and>
      wd_status d = WD_PENDING \<and> wd_attempts d = 0 \<and> wd_last_attempt_at d = None \<and>
      wd_created_at d = now)"

text \<open>The store \<open>s\<close> with \<open>f\<close> applied to the message rows of identifier \<open>i\<close>, and
  nothing else changed.\<close>

definition with_message :: "store \<Rightarrow> uuid \<Rightarrow> (message \<Rightarrow> message) \<Rightarrow> store" where
  "with_message s i f = s\<lparr>messages := map (\<lambda>r. if m_id r = i then f r else r) (messages s)\<rparr>"

text \<open>The one call of \<open>smtp.send\<close> that \<open>processMessage\<close> makes for a message.\<close>

definition the_request :: "store \<Rightarrow> message \<Rightarrow> EmailMessage \<times> DkimConfig option" where
  "the_request s m =
     (\<lparr> em_from = m_from_address m, em_to = m_to_address m,
        em_subject = (case m_subject m of None \<Rightarrow> [] | Some v \<Rightarrow> v),
        em_text = m_body m, em_html = m_html_body m,
        em_messageId = ''<'' @ show_nat (m_id m) @ ''@mailforge>'' \<rparr>,
      getDkimConfig s m)"

text \<open>The columns written at a terminal failure of message \<open>m\<close> with error \<open>e\<close>.\<close>

definition failed_row :: "message \<Rightarrow> timestamp \<Rightarrow> SmtpError \<Rightarrow> message \<Rightarrow> message" where
  "failed_row m now e r =
     r\<lparr> m_status := FAILED, m_attempts := m_attempts m + 1, m_failed_at := Some now,
        m_failure_reason := Some (err_message e) \<rparr>"

definition bounce_payload :: "timestamp \<Rightarrow> uuid \<Rightarrow> SmtpError \<Rightarrow> payload" where
  "bounce_payload now messageId e =
     [(''event'', JString ''message.bounced''), (''timestamp'', JIsoTime now),
      (''messageId'', JId messageId), (''bounceType'', JString ''hard''),
      (''bounceCode'', (case err_responseCode e of None \<Rightarrow> JUndefined | Some c \<Rightarrow> JNumber c)),
      (''bounceMessage'', JString (err_message e))]"

definition failure_payload :: "timestamp \<Rightarrow> uuid \<Rightarrow> SmtpError \<Rightarrow> payload" where
  "failure_payload now messageId e =
     [(''event'', JString ''message.failed''), (''timestamp'', JIsoTime now),
      (''messageId'', JId messageId), (''failureReason'', JString (err_message e))]"

text \<open>A message row the claim may take: queued, and not locked by another transaction.\<close>

definition ready_message :: "uuid list \<Rightarrow> message \<Rightarrow> bool" where
  "ready_message locked r = (m_status r = QUEUED \<and> m_id r \<notin> set locked)"

text \<open>A delivery row the claim may take at the instant \<open>now\<close>: pending, not attempted
  in the last 30 seconds, and not locked by another transaction.\<close>

definition ready_delivery :: "uuid list \<Rightarrow> timestamp \<Rightarrow> webhook_delivery \<Rightarrow> bool" where
  "ready_delivery locked now r =
     (wd_status r = WD_PENDING
      \<and> (case wd_last_attempt_at r of None \<Rightarrow> True | Some t \<Rightarrow> t < now - 30000)
      \<and> wd_id r \<notin> set locked)"

text \<open>The store \<open>s\<close> with \<open>f\<close> applied to the delivery rows of identifier \<open>i\<close>,
  and nothing else changed.\<close>

definition with_delivery ::
  "store \<Rightarrow> uuid \<Rightarrow> (webhook_delivery \<Rightarrow> webhook_delivery) \<Rightarrow> store" where
  "with_delivery s i f =
     s\<lparr>webhook_deliveries := map (\<lambda>r. if wd_id r = i then f r else r) (webhook_deliveries s)\<rparr>"


section \<open>Example data\<close>

text \<open>
  The examples lower the letters \<open>A\<close> to \<open>Z\<close> and leave every other character alone,
  as \<^verbatim>\<open>String.prototype.toLowerCase\<close> does on the ASCII strings they use.
\<close>

definition upper_letters :: string where
  "upper_letters = ''ABCDEFGHIJKLMNOPQRSTUVWXYZ''"

definition lower_letters :: string where
  "lower_letters = ''abcdefghijklmnopqrstuvwxyz''"

definition lower_char :: "char \<Rightarrow> char" where
  "lower_char c = (case map_of (zip upper_letters lower_letters) c of
                     Some d \<Rightarrow> d
                   | None \<Rightarrow> c)"

definition ascii_lower :: lower_fn where
  "ascii_lower s = map lower_char s"

definition example_webhook :: webhook where
  "example_webhook =
     \<lparr> wh_id = 10, wh_api_key_id = 1, wh_url = ''https://hooks.example/in'',
       wh_events = [''message.sent'', ''message.bounced'', ''message.failed''],
       wh_secret = ''whsec'', wh_active = True, wh_created_at = 5 \<rparr>"

definition example_message :: message where
  "example_message =
     \<lparr> m_id = 7, m_api_key_id = 1, m_idempotency_key = None, m_type = EMAIL,
       m_status = PROCESSING, m_from_address = ''noreply@t.example'',
       m_to_address = ''Gone@Example.com'', m_subject = Some ''Hello'', m_body = Some ''Hi'',
       m_html_body = None, m_metadata = None, m_attempts = 0, m_created_at = 100,
       m_sent_at = None, m_delivered_at = None, m_failed_at = None, m_failure_reason = None \<rparr>"

definition example_store :: store where
  "example_store =
     \<lparr> db_up = True, next_id = 100, messages = [example_message], suppressions = [],
       webhooks = [example_webhook], webhook_deliveries = [], domains = [] \<rparr>"

definition example_delivery :: webhook_delivery where
  "example_delivery =
     \<lparr> wd_id = 20, wd_webhook_id = 10, wd_message_id = Some 7, wd_event = ''message.sent'',
       wd_payload = [(''event'', JString ''message.sent'')], wd_status = WD_PENDING,
       wd_attempts = 0, wd_last_attempt_at = None, wd_created_at = 50 \<rparr>"

definition default_config :: WorkerConfig where
  "default_config = \<lparr> maxRetries = 3, retryDelayMs = 5000, maxWebhookRetries = 5 \<rparr>"

definition example_suppression :: suppression where
  "example_suppression =
     \<lparr> sup_id = 3, sup_api_key_id = 1, sup_email = ''gone@example.com'',
       sup_reason = MANUAL, sup_created_at = 1 \<rparr>"

definition error_421 :: SmtpError where
  "error_421 = classifySmtpError
     \<lparr> raw_message = ''421 try later'', raw_code = Some ''EENVELOPE'',
       raw_responseCode = Some 421 \<rparr>"

definition error_550 :: SmtpError where
  "error_550 = classifySmtpError
     \<lparr> raw_message = ''550 no such user'', raw_code = Some ''EENVELOPE'',
       raw_responseCode = Some 550 \<rparr>"

definition error_554 :: SmtpError where
  "error_554 = classifySmtpError
     \<lparr> raw_message = ''554 policy rejection'', raw_code = Some ''EENVELOPE'',
       raw_responseCode = Some 554 \<rparr>"

definition error_connection_554 :: raw_error where
  "error_connection_554 =
     \<lparr> raw_message = ''554 no service'', raw_code = Some ''ECONNECTION'',
       raw_responseCode = Some 554 \<rparr>"

definition error_with_code :: "string \<Rightarrow> raw_error" where
  "error_with_code c = \<lparr> raw_message = ''connect failed'', raw_code = Some c,
                          raw_responseCode = None \<rparr>"

definition error_reset :: raw_error where
  "error_reset = \<lparr> raw_message = ''read ECONNRESET'', raw_code = Some ''ECONNRESET'',
                   raw_responseCode = None \<rparr>"

definition error_raw :: "string \<Rightarrow> int \<Rightarrow> raw_error" where
  "error_raw msg rc = \<lparr> raw_message = msg, raw_code = Some ''EENVELOPE'',
                       raw_responseCode = Some rc \<rparr>"

definition queued_message :: "uuid \<Rightarrow> timestamp \<Rightarrow> int \<Rightarrow> message" where
  "queued_message i created n =
     example_message\<lparr> m_id := i, m_status := QUEUED, m_created_at := created, m_attempts := n \<rparr>"

definition queue_store :: store where
  "queue_store =
     example_store\<lparr> messages := [queued_message 1 200 0, queued_message 2 100 3],
                    webhook_deliveries := [example_delivery] \<rparr>"

definition suppressed_store :: store where
  "suppressed_store = example_store\<lparr> suppressions := [example_suppression] \<rparr>"

text \<open>The same store when the database does not answer.\<close>

definition down_store :: store where
  "down_store = suppressed_store\<lparr> db_up := False \<rparr>"

definition webhook_503_store :: store where
  "webhook_503_store = example_store\<lparr>webhook_deliveries := [example_delivery]\<rparr>"



definition first_create :: SuppressionInsert where
  "first_create = \<lparr> si_id = None, si_api_key_id = 1, si_email = ''Gone@Example.com'',
                    si_reason = HARD_BOUNCE \<rparr>"

definition second_create :: SuppressionInsert where
  "second_create = \<lparr> si_id = Some 100, si_api_key_id = 1, si_email = ''GONE@example.COM'',
                     si_reason = MANUAL \<rparr>"

text \<open>The example delivery after some attempts, and the store that holds only it.\<close>

definition delivery_after ::
  "int \<Rightarrow> timestamp option \<Rightarrow> WebhookDeliveryStatus \<Rightarrow> webhook_delivery" where
  "delivery_after n t st =
     example_delivery\<lparr> wd_status := st, wd_attempts := n, wd_last_attempt_at := t \<rparr>"

definition store_after :: "int \<Rightarrow> timestamp option \<Rightarrow> WebhookDeliveryStatus \<Rightarrow> store" where
  "store_after n t st = example_store\<lparr> webhook_deliveries := [delivery_after n t st] \<rparr>"

section \<open>Hexadecimal digits\<close>



section \<open>Writes to the store\<close>

lemma create_delivery_up:
  "db_up s \<Longrightarrow>
   snd (db_webhookDeliveries_create s now
          \<lparr> wdi_id = None, wdi_webhook_id = w, wdi_message_id = mid, wdi_event = ev,
            wdi_payload = p, wdi_status = Some WD_PENDING, wdi_attempts = None \<rparr>) =
   s\<lparr> webhook_deliveries := webhook_deliveries s @
         [\<lparr> wd_id = next_id s, wd_webhook_id = w, wd_message_id = mid, wd_event = ev,
            wd_payload = sql_json p, wd_status = WD_PENDING, wd_attempts = 0,
            wd_last_attempt_at = None, wd_created_at = now \<rparr>],
       next_id := next_id s + 1 \<rparr>"
  by (simp add: db_webhookDeliveries_create_def delivery_id_taken_def Let_def)

lemma fold_create:
  "db_up s \<Longrightarrow>
   \<exists>new. fold (\<lambda>webhook st.
                 if ev \<in> set (wh_events webhook)
                 then snd (db_webhookDeliveries_create st now
                            \<lparr> wdi_id = None, wdi_webhook_id = wh_id webhook,
                              wdi_message_id = Some mid, wdi_event = ev, wdi_payload = p,
                              wdi_status = Some WD_PENDING, wdi_attempts = None \<rparr>)
                 else st) hooks s
          = s\<lparr> webhook_deliveries := webhook_deliveries s @ new,
               next_id := next_id s + length new \<rparr>
        \<and> map wd_webhook_id new = map wh_id (filter (\<lambda>w. ev \<in> set (wh_events w)) hooks)
        \<and> list_all (fresh_delivery now mid ev p) new"
proof (induction hooks arbitrary: s)
  case Nil
  then show ?case by (intro exI[of _ "[]"]) simp
next
  case (Cons h hooks)
  show ?case
  proof (cases "ev \<in> set (wh_events h)")
    case False
    with Cons.IH[OF Cons.prems] show ?thesis by simp
  next
    case True
    let ?row = "\<lparr> wd_id = next_id s, wd_webhook_id = wh_id h, wd_message_id = Some mid,
                   wd_event = ev, wd_payload = sql_json p, wd_status = WD_PENDING,
                   wd_attempts = 0, wd_last_attempt_at = None, wd_created_at = now \<rparr>"
    let ?s1 = "s\<lparr> webhook_deliveries := webhook_deliveries s @ [?row],
                  next_id := next_id s + 1 \<rparr>"
    have up: "db_up ?s1" using Cons.prems by simp
    from Cons.IH[OF up] obtain new where
      n: "fold (\<lambda>webhook st.
                 if ev \<in> set (wh_events webhook)
                 then snd (db_webhookDeliveries_create st now
                            \<lparr> wdi_id = None, wdi_webhook_id = wh_id webhook,
                              wdi_message_id = Some mid, wdi_event = ev, wdi_payload = p,
                              wdi_status = Some WD_PENDING, wdi_attempts = None \<rparr>)
                 else st) hooks ?s1
          = ?s1\<lparr> webhook_deliveries := webhook_deliveries ?s1 @ new,
               next_id := next_id ?s1 + length new \<rparr>"
      and m: "map wd_webhook_id new = map wh_id (filter (\<lambda>w. ev \<in> set (wh_events w)) hooks)"
      and f: "list_all (fresh_delivery now mid ev p) new"
      by blast
    have r: "fresh_delivery now mid ev p ?row" by (simp add: fresh_delivery_def)
    show ?thesis
      apply (rule exI[of _ "?row # new"])
      using True n m f r Cons.prems
      by (simp add: create_delivery_up)
  qed
qed

lemma triggerWebhookEvent_up:
  assumes "db_up s"
  shows "\<exists>new. triggerWebhookEvent s now k mid ev add
           = s\<lparr> webhook_deliveries := webhook_deliveries s @ new,
                next_id := next_id s + length new \<rparr>
        \<and> map wd_webhook_id new = map wh_id (subscribers s k ev)
        \<and> list_all (fresh_delivery now mid ev
              ([(''event'', JString ev), (''timestamp'', JIsoTime now), (''messageId'', JId mid)] @ add)) new"
proof (cases "rev (sort_key wh_created_at
               (filter (\<lambda>r. wh_api_key_id r = k \<and> wh_active r) (webhooks s))) = []")
  case True
  then show ?thesis using assms
    by (intro exI[of _ "[]"])
       (simp add: triggerWebhookEvent_def db_webhooks_findActiveByApiKey_def subscribers_def)
next
  case False
  from fold_create[OF assms, of ev now mid _ "rev (sort_key wh_created_at
               (filter (\<lambda>r. wh_api_key_id r = k \<and> wh_active r) (webhooks s)))"]
  show ?thesis using assms False
    by (simp add: triggerWebhookEvent_def db_webhooks_findActiveByApiKey_def subscribers_def Let_def)
qed

lemma checkSuppression_none:
  "db_up s \<Longrightarrow> \<not> is_suppressed toLowerCase s k a \<Longrightarrow> \<not> suppressed (checkSuppression toLowerCase s k a)"
  by (simp add: checkSuppression_def db_suppressions_findByEmail_def is_suppressed_def
      list_ex_iff find_None_iff[THEN iffD2])

lemma checkSuppression_store_error:
  "\<not> db_up s \<Longrightarrow> checkSuppression toLowerCase s k a = \<lparr> suppressed = False, reason = None \<rparr>"
  by (simp add: checkSuppression_def db_suppressions_findByEmail_def)

lemma checkSuppression_some:
  assumes "db_up s" "is_suppressed toLowerCase s k a"
  shows "\<exists>r \<in> set (suppressions s). sup_api_key_id r = k \<and> sup_email r = toLowerCase a
           \<and> checkSuppression toLowerCase s k a = \<lparr> suppressed = True, reason = Some (sup_reason r) \<rparr>"
proof -
  from assms(2) obtain r where
    "find (\<lambda>r. sup_api_key_id r = k \<and> sup_email r = toLowerCase a) (suppressions s) = Some r"
    by (cases "find (\<lambda>r. sup_api_key_id r = k \<and> sup_email r = toLowerCase a) (suppressions s)")
       (auto simp: is_suppressed_def list_ex_iff find_None_iff)
  moreover from this have "r \<in> set (suppressions s) \<and> sup_api_key_id r = k \<and> sup_email r = toLowerCase a"
    by (auto simp: find_Some_iff)
  ultimately show ?thesis using assms(1)
    by (auto simp: checkSuppression_def db_suppressions_findByEmail_def)
qed

lemma update_nonempty:
  "no_MessageUpdate\<lparr> mu_status := Some st, mu_failed_at := ft, mu_failure_reason := fr \<rparr> \<noteq> no_MessageUpdate"
  "no_MessageUpdate\<lparr> mu_status := Some st, mu_attempts := n, mu_failure_reason := fr \<rparr> \<noteq> no_MessageUpdate"
  "no_MessageUpdate\<lparr> mu_status := Some st, mu_attempts := n, mu_failed_at := ft, mu_failure_reason := fr \<rparr> \<noteq> no_MessageUpdate"
  "no_MessageUpdate\<lparr> mu_status := Some st, mu_sent_at := t \<rparr> \<noteq> no_MessageUpdate"
  by (simp_all add: no_MessageUpdate_def)

lemma messages_update_with:
  assumes "db_up s" "data \<noteq> no_MessageUpdate"
  shows "snd (db_messages_update s i data) = with_message s i (set_message_columns data)"
  using assms by (simp add: db_messages_update_def with_message_def Let_def)

lemma set_columns_fun:
  "set_message_columns
     (no_MessageUpdate\<lparr> mu_status := Some st, mu_failed_at := Some t, mu_failure_reason := Some x \<rparr>)
   = (\<lambda>r. r\<lparr> m_status := st, m_failed_at := Some t, m_failure_reason := Some x \<rparr>)"
  "set_message_columns
     (no_MessageUpdate\<lparr> mu_status := Some st, mu_attempts := Some n, mu_failure_reason := Some x \<rparr>)
   = (\<lambda>r. r\<lparr> m_status := st, m_attempts := n, m_failure_reason := Some x \<rparr>)"
  "set_message_columns
     (no_MessageUpdate\<lparr> mu_status := Some st, mu_attempts := Some n, mu_failed_at := Some t,
        mu_failure_reason := Some x \<rparr>)
   = (\<lambda>r. r\<lparr> m_status := st, m_attempts := n, m_failed_at := Some t, m_failure_reason := Some x \<rparr>)"
  "set_message_columns (no_MessageUpdate\<lparr> mu_status := Some st, mu_sent_at := Some t \<rparr>)
   = (\<lambda>r. r\<lparr> m_status := st, m_sent_at := Some t \<rparr>)"
  by (rule ext, simp add: set_message_columns_def no_MessageUpdate_def)+

lemmas message_writes = messages_update_with update_nonempty set_columns_fun

section \<open>The branches of processMessage\<close>

lemma processMessage_suppressed:
  assumes "db_up s" "checkSuppression toLowerCase s (m_api_key_id m) (m_to_address m) = \<lparr> suppressed = True, reason = Some rsn \<rparr>"
  shows "processMessage toLowerCase config reply now s m =
     \<lparr> pm_store = with_message s (m_id m)
            (\<lambda>r. r\<lparr> m_status := REJECTED, m_failed_at := Some now,
                    m_failure_reason := Some (''Recipient suppressed: '' @ reason_string rsn) \<rparr>),
       pm_sends = [],
       pm_result = Returned
            \<lparr> pr_messageId = m_id m, pr_success = False, pr_status = REJECTED,
              pr_error = Some (''Recipient suppressed: '' @ reason_string rsn),
              pr_shouldRetry = Some False \<rparr> \<rparr>"
  using assms
  by (simp add: processMessage_def Let_def message_writes template_reason_def)

lemma processMessage_retry:
  assumes "db_up s" "\<not> suppressed (checkSuppression toLowerCase s (m_api_key_id m) (m_to_address m))"
    "err_shouldRetry e" "m_attempts m + 1 < maxRetries config"
  shows "processMessage toLowerCase config (Send_resolves (Send_failure e)) now s m =
     \<lparr> pm_store = with_message s (m_id m)
            (\<lambda>r. r\<lparr> m_status := QUEUED, m_attempts := m_attempts m + 1,
                    m_failure_reason := Some (err_message e) \<rparr>),
       pm_sends = [the_request s m],
       pm_result = Returned
            \<lparr> pr_messageId = m_id m, pr_success = False, pr_status = QUEUED,
              pr_error = Some (err_message e), pr_shouldRetry = Some True \<rparr> \<rparr>"
  using assms
  by (simp add: processMessage_def Let_def message_writes the_request_def)


lemma processMessage_terminal:
  assumes "db_up s" "\<not> suppressed (checkSuppression toLowerCase s (m_api_key_id m) (m_to_address m))"
    "\<not> (err_shouldRetry e \<and> m_attempts m + 1 < maxRetries config)"
    "s1 = with_message s (m_id m)
            (\<lambda>r. r\<lparr> m_status := FAILED, m_attempts := m_attempts m + 1,
                    m_failed_at := Some now, m_failure_reason := Some (err_message e) \<rparr>)"
  shows "processMessage toLowerCase config (Send_resolves (Send_failure e)) now s m =
     \<lparr> pm_store =
         (if isHardBounce e then
               triggerWebhookEvent
                 (addToSuppression toLowerCase s1 now (m_api_key_id m) (m_to_address m) HARD_BOUNCE)
                 now (m_api_key_id m) (m_id m) ''message.bounced''
                 [(''bounceType'', JString ''hard''),
                  (''bounceCode'',
                     (case err_responseCode e of None \<Rightarrow> JUndefined | Some c \<Rightarrow> JNumber c)),
                  (''bounceMessage'', JString (err_message e))]
             else
               triggerWebhookEvent s1 now (m_api_key_id m) (m_id m) ''message.failed''
                 [(''failureReason'', JString (err_message e))]),
       pm_sends = [the_request s m],
       pm_result = Returned
            \<lparr> pr_messageId = m_id m, pr_success = False, pr_status = FAILED,
              pr_error = Some (err_message e), pr_shouldRetry = Some False \<rparr> \<rparr>"
proof -
  have w: "snd (db_messages_update s (m_id m)
                 (no_MessageUpdate
                    \<lparr> mu_status := Some FAILED,
                      mu_attempts := Some (m_attempts m + 1),
                      mu_failed_at := Some now,
                      mu_failure_reason := Some (err_message e) \<rparr>)) = s1"
    using assms(1,4) by (simp add: message_writes)
  show ?thesis
    using assms(2,3) by (auto simp add: processMessage_def Let_def w the_request_def)
qed

lemma addToSuppression_new:
  "db_up s \<Longrightarrow> \<not> is_suppressed toLowerCase s k a \<Longrightarrow>
   addToSuppression toLowerCase s now k a rsn =
     s\<lparr> suppressions := suppressions s @
           [\<lparr> sup_id = next_id s, sup_api_key_id = k, sup_email = toLowerCase a,
              sup_reason = rsn, sup_created_at = now \<rparr>],
        next_id := next_id s + 1 \<rparr>"
  by (simp add: addToSuppression_def db_suppressions_create_def is_suppressed_def Let_def)

lemma is_suppressed_frame:
  "suppressions s' = suppressions s \<Longrightarrow> is_suppressed toLowerCase s' k a = is_suppressed toLowerCase s k a"
  by (simp add: is_suppressed_def)

lemma subscribers_frame:
  "webhooks s' = webhooks s \<Longrightarrow> subscribers s' k ev = subscribers s k ev"
  by (simp add: subscribers_def)


lemma with_message_simps:
  "db_up (with_message s i f) = db_up s"
  "next_id (with_message s i f) = next_id s"
  "suppressions (with_message s i f) = suppressions s"
  "webhooks (with_message s i f) = webhooks s"
  "webhook_deliveries (with_message s i f) = webhook_deliveries s"
  "domains (with_message s i f) = domains s"
  "messages (with_message s i f) = map (\<lambda>r. if m_id r = i then f r else r) (messages s)"
  by (simp_all add: with_message_def)

lemma terminal_bounce:
  assumes up: "db_up s"
    and ns: "\<not> is_suppressed toLowerCase s (m_api_key_id m) (m_to_address m)"
    and t: "\<not> (err_shouldRetry e \<and> m_attempts m + 1 < maxRetries config)"
    and hb: "isHardBounce e"
  shows "\<exists>new. pm_store (processMessage toLowerCase config (Send_resolves (Send_failure e)) now s m) =
            s\<lparr> messages := map (\<lambda>r. if m_id r = m_id m then failed_row m now e r else r) (messages s),
               suppressions := suppressions s @
                 [\<lparr> sup_id = next_id s, sup_api_key_id = m_api_key_id m,
                    sup_email = toLowerCase (m_to_address m),
                    sup_reason = HARD_BOUNCE, sup_created_at = now \<rparr>],
               webhook_deliveries := webhook_deliveries s @ new,
               next_id := next_id s + 1 + length new \<rparr>
          \<and> map wd_webhook_id new = map wh_id (subscribers s (m_api_key_id m) ''message.bounced'')
          \<and> list_all (fresh_delivery now (m_id m) ''message.bounced''
                         (bounce_payload now (m_id m) e)) new"
proof -
  define s1 where "s1 = with_message s (m_id m)
            (\<lambda>r. r\<lparr> m_status := FAILED, m_attempts := m_attempts m + 1,
                    m_failed_at := Some now, m_failure_reason := Some (err_message e) \<rparr>)"
  define s2 where "s2 = addToSuppression toLowerCase s1 now (m_api_key_id m) (m_to_address m) HARD_BOUNCE"
  have up1: "db_up s1" using up by (simp add: s1_def with_message_simps)
  have ns1: "\<not> is_suppressed toLowerCase s1 (m_api_key_id m) (m_to_address m)"
    using ns by (simp add: s1_def is_suppressed_def with_message_simps)
  have s2: "s2 = s1\<lparr> suppressions := suppressions s1 @
                 [\<lparr> sup_id = next_id s1, sup_api_key_id = m_api_key_id m,
                    sup_email = toLowerCase (m_to_address m),
                    sup_reason = HARD_BOUNCE, sup_created_at = now \<rparr>],
               next_id := next_id s1 + 1 \<rparr>"
    unfolding s2_def by (rule addToSuppression_new[OF up1 ns1])
  have up2: "db_up s2" using up1 by (simp add: s2)
  from triggerWebhookEvent_up[OF up2, of now "m_api_key_id m" "m_id m" "''message.bounced''"
      "[(''bounceType'', JString ''hard''),
        (''bounceCode'', (case err_responseCode e of None \<Rightarrow> JUndefined | Some c \<Rightarrow> JNumber c)),
        (''bounceMessage'', JString (err_message e))]"]
  obtain new where
    n: "triggerWebhookEvent s2 now (m_api_key_id m) (m_id m) ''message.bounced''
          [(''bounceType'', JString ''hard''),
           (''bounceCode'', (case err_responseCode e of None \<Rightarrow> JUndefined | Some c \<Rightarrow> JNumber c)),
           (''bounceMessage'', JString (err_message e))]
        = s2\<lparr> webhook_deliveries := webhook_deliveries s2 @ new,
              next_id := next_id s2 + length new \<rparr>"
    and w: "map wd_webhook_id new = map wh_id (subscribers s2 (m_api_key_id m) ''message.bounced'')"
    and f: "list_all (fresh_delivery now (m_id m) ''message.bounced''
                         (bounce_payload now (m_id m) e)) new"
    unfolding bounce_payload_def by auto
  have sub: "subscribers s2 (m_api_key_id m) ''message.bounced''
           = subscribers s (m_api_key_id m) ''message.bounced''"
    by (rule subscribers_frame) (simp add: s2 s1_def with_message_simps)
  have "pm_store (processMessage toLowerCase config (Send_resolves (Send_failure e)) now s m)
        = s2\<lparr> webhook_deliveries := webhook_deliveries s2 @ new,
              next_id := next_id s2 + length new \<rparr>"
    using processMessage_terminal[OF up checkSuppression_none[OF up ns] t s1_def] hb n
    by (simp add: s2_def)
  also have "\<dots> = s\<lparr> messages := map (\<lambda>r. if m_id r = m_id m then failed_row m now e r else r) (messages s),
               suppressions := suppressions s @
                 [\<lparr> sup_id = next_id s, sup_api_key_id = m_api_key_id m,
                    sup_email = toLowerCase (m_to_address m),
                    sup_reason = HARD_BOUNCE, sup_created_at = now \<rparr>],
               webhook_deliveries := webhook_deliveries s @ new,
               next_id := next_id s + 1 + length new \<rparr>"
    by (simp add: s2 s1_def with_message_def failed_row_def)
  finally show ?thesis using w f sub by auto
qed

lemma terminal_other:
  assumes up: "db_up s"
    and ns: "\<not> is_suppressed toLowerCase s (m_api_key_id m) (m_to_address m)"
    and t: "\<not> (err_shouldRetry e \<and> m_attempts m + 1 < maxRetries config)"
    and hb: "\<not> isHardBounce e"
  shows "\<exists>new. pm_store (processMessage toLowerCase config (Send_resolves (Send_failure e)) now s m) =
            s\<lparr> messages := map (\<lambda>r. if m_id r = m_id m then failed_row m now e r else r) (messages s),
               webhook_deliveries := webhook_deliveries s @ new,
               next_id := next_id s + length new \<rparr>
          \<and> map wd_webhook_id new = map wh_id (subscribers s (m_api_key_id m) ''message.failed'')
          \<and> list_all (fresh_delivery now (m_id m) ''message.failed''
                         (failure_payload now (m_id m) e)) new"
proof -
  define s1 where "s1 = with_message s (m_id m)
            (\<lambda>r. r\<lparr> m_status := FAILED, m_attempts := m_attempts m + 1,
                    m_failed_at := Some now, m_failure_reason := Some (err_message e) \<rparr>)"
  have up1: "db_up s1" using up by (simp add: s1_def with_message_simps)
  from triggerWebhookEvent_up[OF up1, of now "m_api_key_id m" "m_id m" "''message.failed''"
      "[(''failureReason'', JString (err_message e))]"]
  obtain new where
    n: "triggerWebhookEvent s1 now (m_api_key_id m) (m_id m) ''message.failed''
          [(''failureReason'', JString (err_message e))]
        = s1\<lparr> webhook_deliveries := webhook_deliveries s1 @ new,
              next_id := next_id s1 + length new \<rparr>"
    and w: "map wd_webhook_id new = map wh_id (subscribers s1 (m_api_key_id m) ''message.failed'')"
    and f: "list_all (fresh_delivery now (m_id m) ''message.failed''
                         (failure_payload now (m_id m) e)) new"
    unfolding failure_payload_def by auto
  have sub: "subscribers s1 (m_api_key_id m) ''message.failed''
           = subscribers s (m_api_key_id m) ''message.failed''"
    by (rule subscribers_frame) (simp add: s1_def with_message_simps)
  have "pm_store (processMessage toLowerCase config (Send_resolves (Send_failure e)) now s m)
        = s1\<lparr> webhook_deliveries := webhook_deliveries s1 @ new,
              next_id := next_id s1 + length new \<rparr>"
    using processMessage_terminal[OF up checkSuppression_none[OF up ns] t s1_def] hb n
    by simp
  also have "\<dots> = s\<lparr> messages := map (\<lambda>r. if m_id r = m_id m then failed_row m now e r else r) (messages s),
               webhook_deliveries := webhook_deliveries s @ new,
               next_id := next_id s + length new \<rparr>"
    by (simp add: s1_def with_message_def failed_row_def)
  finally show ?thesis using w f sub by auto
qed

lemma isHardBounce_iff:
  "isHardBounce e \<longleftrightarrow>
     err_type e = permanent
     \<and> err_responseCode e \<in> {Some 550, Some 551, Some 552, Some 553, Some 554}"
  by (cases "err_responseCode e") (auto simp: isHardBounce_def HARD_BOUNCE_CODES_def)

lemma processMessage_store_down:
  assumes "\<not> db_up s"
  shows "pm_sends (processMessage toLowerCase config reply now s m) = [the_request s m]"
    and "pm_store (processMessage toLowerCase config reply now s m) = s"
proof -
  have c: "\<not> suppressed (checkSuppression toLowerCase s (m_api_key_id m) (m_to_address m))"
    using assms by (simp add: checkSuppression_store_error)
  have u: "\<And>i d. snd (db_messages_update s i d) = s"
    using assms by (simp add: db_messages_update_def)
  have t: "\<And>k i ev p. triggerWebhookEvent s now k i ev p = s"
    using assms by (simp add: triggerWebhookEvent_def db_webhooks_findActiveByApiKey_def)
  have a: "\<And>k x r. addToSuppression toLowerCase s now k x r = s"
    using assms by (simp add: addToSuppression_def db_suppressions_create_def)
  show "pm_sends (processMessage toLowerCase config reply now s m) = [the_request s m]"
  proof (cases reply)
    case (Send_resolves r)
    then show ?thesis using c
      by (cases r) (simp_all add: processMessage_def Let_def the_request_def)
  next
    case (Send_throws x)
    then show ?thesis using c by (simp add: processMessage_def Let_def the_request_def)
  qed
  show "pm_store (processMessage toLowerCase config reply now s m) = s"
  proof (cases reply)
    case (Send_resolves r)
    then show ?thesis using c
      by (cases r) (simp_all add: processMessage_def Let_def u t a)
  next
    case (Send_throws x)
    then show ?thesis using c by (simp add: processMessage_def Let_def)
  qed
qed

lemma fresh_bounce_payload:
  assumes "list_all (fresh_delivery now i ''message.bounced'' (bounce_payload now i e)) new"
    and "err_responseCode e = Some c"
  shows "\<forall>d \<in> set new. wd_event d = ''message.bounced'' \<and> wd_status d = WD_PENDING
            \<and> wd_message_id d = Some i
            \<and> wd_payload d =
                [(''event'', JString ''message.bounced''), (''timestamp'', JIsoTime now),
                 (''messageId'', JId i), (''bounceType'', JString ''hard''),
                 (''bounceCode'', JNumber c), (''bounceMessage'', JString (err_message e))]"
  using assms by (simp add: list_all_iff fresh_delivery_def bounce_payload_def sql_json_def)

lemma fresh_failure_payload:
  assumes "list_all (fresh_delivery now i ''message.failed'' (failure_payload now i e)) new"
  shows "\<forall>d \<in> set new. wd_event d = ''message.failed'' \<and> wd_status d = WD_PENDING
            \<and> wd_message_id d = Some i
            \<and> wd_payload d =
                [(''event'', JString ''message.failed''), (''timestamp'', JIsoTime now),
                 (''messageId'', JId i), (''failureReason'', JString (err_message e))]"
  using assms by (simp add: list_all_iff fresh_delivery_def failure_payload_def sql_json_def)

section \<open>Creating a suppression twice\<close>

lemma create_existing:
  assumes up: "db_up s"
    and ex: "filter (\<lambda>r. sup_api_key_id r = si_api_key_id d \<and> sup_email r = toLowerCase (si_email d))
               (suppressions s) = r # rest"
  shows "db_suppressions_create toLowerCase s now d = (Inr r, s)"
proof -
  have "r \<in> set (filter (\<lambda>r. sup_api_key_id r = si_api_key_id d \<and> sup_email r = toLowerCase (si_email d))
               (suppressions s))" using ex by simp
  then have c: "list_ex (\<lambda>r. sup_api_key_id r = si_api_key_id d \<and> sup_email r = toLowerCase (si_email d))
               (suppressions s)" by (auto simp: list_ex_iff)
  show ?thesis using up c ex by (simp add: db_suppressions_create_def Let_def)
qed

lemma create_result:
  assumes "db_suppressions_create toLowerCase s now d = (Inr r, s')"
  shows "db_up s' \<and> (\<exists>rest. filter (\<lambda>x. sup_api_key_id x = si_api_key_id d \<and> sup_email x = toLowerCase (si_email d))
               (suppressions s') = r # rest)"
proof (cases "list_ex (\<lambda>r. sup_api_key_id r = si_api_key_id d \<and> sup_email r = toLowerCase (si_email d))
               (suppressions s)")
  case True
  with assms show ?thesis
    by (auto simp: db_suppressions_create_def Let_def split: if_splits list.splits)
next
  case False
  then have "filter (\<lambda>r. sup_api_key_id r = si_api_key_id d \<and> sup_email r = toLowerCase (si_email d))
               (suppressions s) = []"
    by (auto simp: list_ex_iff filter_empty_conv)
  with False assms show ?thesis
    by (auto simp: db_suppressions_create_def Let_def split: if_splits)
qed

section \<open>Claiming the next message\<close>

lemma earliest_None: "earliest c rs = None \<longleftrightarrow> rs = []"
  by (induction rs) (auto split: option.splits)

lemma earliest_Some:
  "earliest c rs = Some r \<Longrightarrow> r \<in> set rs \<and> (\<forall>r' \<in> set rs. c r \<le> c r')"
proof (induction rs arbitrary: r)
  case Nil
  then show ?case by simp
next
  case (Cons a rs)
  show ?case
  proof (cases "earliest c rs")
    case None
    then have "rs = []" by (simp add: earliest_None)
    with Cons.prems None show ?thesis by simp
  next
    case (Some b)
    from Cons.IH[OF Some] have b: "b \<in> set rs" "\<forall>r' \<in> set rs. c b \<le> c r'" by auto
    show ?thesis
    proof (cases "c a \<le> c b")
      case True
      with Some Cons.prems have "r = a" by simp
      with True b show ?thesis by auto
    next
      case False
      with Some Cons.prems have "r = b" by simp
      with False b show ?thesis by auto
    qed
  qed
qed

lemma distinct_filter_single:
  "distinct (map f xs) \<Longrightarrow> r \<in> set xs \<Longrightarrow> filter (\<lambda>x. f x = f r) xs = [r]"
proof (induction xs)
  case Nil
  then show ?case by simp
next
  case (Cons a xs)
  show ?case
  proof (cases "a = r")
    case True
    with Cons.prems have "f r \<notin> f ` set xs" by simp
    then have "\<forall>x \<in> set xs. f x \<noteq> f r" by (metis imageI)
    then have "filter (\<lambda>x. f x = f r) xs = []" by (simp add: filter_empty_conv)
    with True show ?thesis by simp
  next
    case False
    with Cons.prems have "r \<in> set xs" "f a \<noteq> f r" by auto
    with Cons show ?thesis by simp
  qed
qed

lemma select_None:
  "claim_next_message_select locked s = None \<longleftrightarrow>
     \<not> list_ex (ready_message locked) (messages s)"
  by (auto simp: claim_next_message_select_def earliest_None ready_message_def list_ex_iff
      filter_empty_conv)

lemma select_Some:
  assumes "claim_next_message_select locked s = Some i"
  shows "\<exists>r \<in> set (messages s). m_id r = i \<and> ready_message locked r
           \<and> (\<forall>r' \<in> set (messages s). ready_message locked r' \<longrightarrow> m_created_at r \<le> m_created_at r')"
proof -
  from assms obtain r where
    e: "earliest m_created_at
          (filter (\<lambda>r. m_status r = QUEUED \<and> m_id r \<notin> set locked) (messages s)) = Some r"
    and i: "m_id r = i"
    by (auto simp: claim_next_message_select_def)
  from earliest_Some[OF e] i show ?thesis
    by (auto simp: ready_message_def)
qed

lemma filter_marked:
  "(\<And>x. f (g x) = f x) \<Longrightarrow>
   filter (\<lambda>x. f x = i) (map (\<lambda>x. if f x = i then g x else x) xs)
     = map g (filter (\<lambda>x. f x = i) xs)"
  by (induction xs) auto

lemma claim_rows:
  assumes d: "distinct (map m_id (messages s))" and r: "r \<in> set (messages s)"
  shows "filter (\<lambda>x. m_id x = m_id r)
           (map (\<lambda>x. if m_id x = m_id r then x\<lparr>m_status := PROCESSING\<rparr> else x) (messages s))
         = [r\<lparr>m_status := PROCESSING\<rparr>]"
proof -
  have "filter (\<lambda>x. m_id x = m_id r)
           (map (\<lambda>x. if m_id x = m_id r then x\<lparr>m_status := PROCESSING\<rparr> else x) (messages s))
        = map (\<lambda>x. x\<lparr>m_status := PROCESSING\<rparr>) (filter (\<lambda>x. m_id x = m_id r) (messages s))"
    by (rule filter_marked) simp
  then show ?thesis using distinct_filter_single[OF d r] by simp
qed


lemma claim_some:
  assumes d: "distinct (map m_id (messages s))"
    and sel: "claim_next_message_select locked s = Some i"
  shows "\<exists>r \<in> set (messages s). m_id r = i \<and> ready_message locked r
           \<and> (\<forall>r' \<in> set (messages s). ready_message locked r' \<longrightarrow> m_created_at r \<le> m_created_at r')
           \<and> claim_next_message locked s =
                 ([r\<lparr>m_status := PROCESSING\<rparr>],
                  with_message s (m_id r) (\<lambda>x. x\<lparr>m_status := PROCESSING\<rparr>))"
proof -
  from select_Some[OF sel] obtain r where
    r: "r \<in> set (messages s)" "m_id r = i" "ready_message locked r"
       "\<forall>r' \<in> set (messages s). ready_message locked r' \<longrightarrow> m_created_at r \<le> m_created_at r'"
    by blast
  have "claim_next_message locked s =
          ([r\<lparr>m_status := PROCESSING\<rparr>],
           with_message s (m_id r) (\<lambda>x. x\<lparr>m_status := PROCESSING\<rparr>))"
    using sel r(2) claim_rows[OF d r(1)]
    by (simp add: claim_next_message_def Let_def with_message_def)
  with r show ?thesis by (intro bexI[of _ r]) simp_all
qed

lemma no_reclaim:
  "claim_next_message_select locked' (with_message s i (\<lambda>x. x\<lparr>m_status := PROCESSING\<rparr>)) \<noteq> Some i"
proof
  assume "claim_next_message_select locked' (with_message s i (\<lambda>x. x\<lparr>m_status := PROCESSING\<rparr>)) = Some i"
  from select_Some[OF this] obtain r where
    r: "r \<in> set (messages (with_message s i (\<lambda>x. x\<lparr>m_status := PROCESSING\<rparr>)))"
    "m_id r = i" "m_status r = QUEUED"
    unfolding ready_message_def by blast
  from r(1) obtain x where
    x: "r = (if m_id x = i then x\<lparr>m_status := PROCESSING\<rparr> else x)"
    unfolding with_message_simps set_map by blast
  show False
  proof (cases "m_id x = i")
    case True
    with x have "m_status r = PROCESSING" by simp
    with r(3) show False by simp
  next
    case False
    with x have "m_id r \<noteq> i" by simp
    with r(2) show False by simp
  qed
qed

lemma claimNext_frame:
  assumes "db_messages_claimNext locked s = (Inr (Some m), s1)"
  shows "db_up s1 \<and> suppressions s1 = suppressions s"
proof (cases "claim_next_message_select locked s")
  case None
  with assms show ?thesis
    by (simp add: db_messages_claimNext_def claim_next_message_def split: if_splits)
next
  case (Some i)
  with assms show ?thesis
    by (auto simp: db_messages_claimNext_def claim_next_message_def Let_def split: if_splits)
qed

lemma processMessage_throws:
  assumes "db_up s" "\<not> suppressed (checkSuppression toLowerCase s (m_api_key_id m) (m_to_address m))"
  shows "processMessage toLowerCase config (Send_throws x) now s m =
           \<lparr> pm_store = s, pm_sends = [the_request s m], pm_result = Thrown x \<rparr>"
  using assms by (simp add: processMessage_def Let_def the_request_def)

section \<open>Claiming the next webhook delivery\<close>

lemma wd_select_None:
  "claim_next_webhook_delivery_select locked now s = None \<longleftrightarrow>
     \<not> list_ex (ready_delivery locked now) (webhook_deliveries s)"
  by (auto simp: claim_next_webhook_delivery_select_def earliest_None ready_delivery_def
      list_ex_iff filter_empty_conv)

lemma wd_select_Some:
  assumes "claim_next_webhook_delivery_select locked now s = Some i"
  shows "\<exists>r \<in> set (webhook_deliveries s). wd_id r = i \<and> ready_delivery locked now r"
proof -
  from assms obtain r where
    e: "earliest wd_created_at
          (filter (\<lambda>r. wd_status r = WD_PENDING
                      \<and> (case wd_last_attempt_at r of None \<Rightarrow> True | Some t \<Rightarrow> t < now - 30000)
                      \<and> wd_id r \<notin> set locked) (webhook_deliveries s)) = Some r"
    and i: "wd_id r = i"
    by (auto simp: claim_next_webhook_delivery_select_def)
  from earliest_Some[OF e] i show ?thesis
    by (auto simp: ready_delivery_def)
qed

lemma claim_delivery_rows:
  assumes "d \<in> set (fst (claim_next_webhook_delivery locked now s))"
  shows "\<exists>r \<in> set (webhook_deliveries s).
        d = r\<lparr> wd_status := WD_PENDING, wd_attempts := wd_attempts r + 1,
                 wd_last_attempt_at := Some now \<rparr>
        \<and> d \<in> set (webhook_deliveries (snd (claim_next_webhook_delivery locked now s)))"
proof (cases "claim_next_webhook_delivery_select locked now s")
  case None
  with assms show ?thesis by (simp add: claim_next_webhook_delivery_def)
next
  case (Some i)
  define rows :: "webhook_delivery list" where "rows = map (\<lambda>r. if wd_id r = i
                                then r\<lparr>wd_status := WD_PENDING,
                                       wd_attempts := wd_attempts r + 1,
                                       wd_last_attempt_at := Some now\<rparr>
                                else r)
                          (webhook_deliveries s)"
  have c: "claim_next_webhook_delivery locked now s =
             (filter (\<lambda>r. wd_id r = i) rows, s\<lparr>webhook_deliveries := rows\<rparr>)"
    using Some by (simp add: claim_next_webhook_delivery_def Let_def rows_def)
  from assms have d: "d \<in> set rows" and di: "wd_id d = i" by (simp_all add: c)
  from d obtain r where r: "r \<in> set (webhook_deliveries s)"
        "d = (if wd_id r = i
                                then r\<lparr>wd_status := WD_PENDING,
                                       wd_attempts := wd_attempts r + 1,
                                       wd_last_attempt_at := Some now\<rparr>
                                else r)"
    unfolding rows_def set_map by blast
  have ri: "wd_id r = i" using r(2) di by (cases "wd_id r = i") simp_all
  then have dr: "d = r\<lparr>wd_status := WD_PENDING,
                                       wd_attempts := wd_attempts r + 1,
                                       wd_last_attempt_at := Some now\<rparr>"
    using r(2) by simp
  have "d \<in> set (webhook_deliveries (snd (claim_next_webhook_delivery locked now s)))"
    using d by (simp add: c)
  with r(1) dr show ?thesis by blast
qed

lemma claim_delivery_nonempty:
  assumes "list_ex (ready_delivery locked now) (webhook_deliveries s)"
  shows "fst (claim_next_webhook_delivery locked now s) \<noteq> []"
proof -
  from assms obtain i where i: "claim_next_webhook_delivery_select locked now s = Some i"
    using wd_select_None[of locked now s] by (cases "claim_next_webhook_delivery_select locked now s") auto
  from wd_select_Some[OF i] obtain r where
    r: "r \<in> set (webhook_deliveries s)" "wd_id r = i" by blast
  define g :: "webhook_delivery \<Rightarrow> webhook_delivery" where "g = (\<lambda>r. if wd_id r = i
                                then r\<lparr>wd_status := WD_PENDING,
                                       wd_attempts := wd_attempts r + 1,
                                       wd_last_attempt_at := Some now\<rparr>
                                else r)"
  have "g r \<in> set (map g (webhook_deliveries s))" using r(1) by simp
  moreover have "wd_id (g r) = i" using r(2) by (simp add: g_def)
  ultimately have "g r \<in> set (filter (\<lambda>r. wd_id r = i) (map g (webhook_deliveries s)))" by simp
  moreover have "fst (claim_next_webhook_delivery locked now s)
                   = filter (\<lambda>r. wd_id r = i) (map g (webhook_deliveries s))"
    using i by (simp add: claim_next_webhook_delivery_def Let_def g_def)
  ultimately have "g r \<in> set (fst (claim_next_webhook_delivery locked now s))" by simp
  then show ?thesis by (metis empty_iff empty_set)
qed

lemma claim_message_rows:
  assumes "c \<in> set (fst (claim_next_message locked s))"
  shows "\<exists>r \<in> set (messages s). c = r\<lparr>m_status := PROCESSING\<rparr>"
proof (cases "claim_next_message_select locked s")
  case None
  with assms show ?thesis by (simp add: claim_next_message_def)
next
  case (Some i)
  define rows :: "message list" where "rows = map (\<lambda>r. if m_id r = i then r\<lparr>m_status := PROCESSING\<rparr> else r) (messages s)"
  have c: "claim_next_message locked s = (filter (\<lambda>r. m_id r = i) rows, s\<lparr>messages := rows\<rparr>)"
    using Some by (simp add: claim_next_message_def Let_def rows_def)
  from assms have d: "c \<in> set rows" and di: "m_id c = i" by (simp_all add: c)
  from d obtain r where r: "r \<in> set (messages s)"
        "c = (if m_id r = i then r\<lparr>m_status := PROCESSING\<rparr> else r)"
    unfolding rows_def set_map by blast
  have ri: "m_id r = i" using r(2) di by (cases "m_id r = i") simp_all
  then have "c = r\<lparr>m_status := PROCESSING\<rparr>" using r(2) by simp
  with r(1) show ?thesis by blast
qed

lemma claim_message_nonempty:
  assumes "list_ex (ready_message locked) (messages s)"
  shows "fst (claim_next_message locked s) \<noteq> []"
proof -
  from assms obtain i where i: "claim_next_message_select locked s = Some i"
    using select_None[of locked s] by (cases "claim_next_message_select locked s") auto
  from select_Some[OF i] obtain r where
    r: "r \<in> set (messages s)" "m_id r = i" by blast
  define g :: "message \<Rightarrow> message" where "g = (\<lambda>r. if m_id r = i then r\<lparr>m_status := PROCESSING\<rparr> else r)"
  have "g r \<in> set (map g (messages s))" using r(1) by simp
  moreover have "m_id (g r) = i" using r(2) by (simp add: g_def)
  ultimately have "g r \<in> set (filter (\<lambda>r. m_id r = i) (map g (messages s)))" by simp
  moreover have "fst (claim_next_message locked s) = filter (\<lambda>r. m_id r = i) (map g (messages s))"
    using i by (simp add: claim_next_message_def Let_def g_def)
  ultimately have "g r \<in> set (fst (claim_next_message locked s))" by simp
  then show ?thesis by (metis empty_iff empty_set)
qed

lemma claim_message_attempts:
  "map m_attempts (messages (snd (claim_next_message locked s))) = map m_attempts (messages s)"
proof (cases "claim_next_message_select locked s")
  case None
  then show ?thesis by (simp add: claim_next_message_def)
next
  case (Some i)
  have "map m_attempts (map (\<lambda>r. if m_id r = i then r\<lparr>m_status := PROCESSING\<rparr> else r) (messages s))
          = map m_attempts (messages s)"
    by (induction "messages s") (simp_all add: comp_def)
  with Some show ?thesis by (simp add: claim_next_message_def Let_def)
qed

section \<open>The example data\<close>

lemma error_421_eq:
  "error_421 = \<lparr> err_message = ''421 try later'', err_type = temporary, err_code = None,
                 err_responseCode = Some 421, err_shouldRetry = True \<rparr>"
  by (simp add: error_421_def classifySmtpError_def truthy_string_def truthy_number_def
      CONNECTION_ERROR_CODES_def HARD_BOUNCE_CODES_def SOFT_BOUNCE_CODES_def new_SmtpError_def)

lemma error_550_eq:
  "error_550 = \<lparr> err_message = ''550 no such user'', err_type = permanent, err_code = None,
                 err_responseCode = Some 550, err_shouldRetry = False \<rparr>"
  by (simp add: error_550_def classifySmtpError_def truthy_string_def truthy_number_def
      CONNECTION_ERROR_CODES_def HARD_BOUNCE_CODES_def SOFT_BOUNCE_CODES_def new_SmtpError_def)

lemma error_554_eq:
  "error_554 = \<lparr> err_message = ''554 policy rejection'', err_type = permanent, err_code = None,
                 err_responseCode = Some 554, err_shouldRetry = False \<rparr>"
  by (simp add: error_554_def classifySmtpError_def truthy_string_def truthy_number_def
      CONNECTION_ERROR_CODES_def HARD_BOUNCE_CODES_def SOFT_BOUNCE_CODES_def new_SmtpError_def)

lemma example_not_suppressed:
  "\<not> is_suppressed ascii_lower example_store (m_api_key_id example_message) (m_to_address example_message)"
  by (simp add: is_suppressed_def example_store_def)

lemma lower_example: "ascii_lower ''Gone@Example.com'' = ''gone@example.com''"
  by (simp add: ascii_lower_def lower_char_def upper_letters_def lower_letters_def)

lemma example_up: "db_up example_store"
  by (simp add: example_store_def)

lemma example_subscribers:
  "subscribers example_store (m_api_key_id example_message) ''message.bounced'' = [example_webhook]"
  "subscribers example_store (m_api_key_id example_message) ''message.failed'' = [example_webhook]"
  by (simp_all add: subscribers_def example_store_def example_message_def example_webhook_def)

lemma queue_distinct: "distinct (map m_id (messages queue_store))"
  by (simp add: queue_store_def queued_message_def)

lemma queue_messages: "messages queue_store = [queued_message 1 200 0, queued_message 2 100 3]"
  by (simp add: queue_store_def)

lemma queue_claim:
  "db_messages_claimNext [] queue_store =
     (Inr (Some ((queued_message 2 100 3)\<lparr>m_status := PROCESSING\<rparr>)),
      with_message queue_store 2 (\<lambda>x. x\<lparr>m_status := PROCESSING\<rparr>))"
  by (simp add: db_messages_claimNext_def claim_next_message_def claim_next_message_select_def
      queue_store_def example_store_def queued_message_def with_message_def Let_def)

lemma queue_claim_rows:
  "claim_next_message [] queue_store =
     ([(queued_message 2 100 3)\<lparr>m_status := PROCESSING\<rparr>],
      with_message queue_store 2 (\<lambda>x. x\<lparr>m_status := PROCESSING\<rparr>))"
  by (simp add: claim_next_message_def claim_next_message_select_def
      queue_store_def example_store_def queued_message_def with_message_def Let_def)

lemma lower_second: "ascii_lower ''GONE@example.COM'' = ''gone@example.com''"
  by (simp add: ascii_lower_def lower_char_def upper_letters_def lower_letters_def)

lemma first_create_result:
  "db_suppressions_create ascii_lower example_store 1000 first_create =
     (Inr \<lparr> sup_id = 100, sup_api_key_id = 1, sup_email = ''gone@example.com'',
            sup_reason = HARD_BOUNCE, sup_created_at = 1000 \<rparr>,
      example_store\<lparr> suppressions :=
                       [\<lparr> sup_id = 100, sup_api_key_id = 1, sup_email = ''gone@example.com'',
                          sup_reason = HARD_BOUNCE, sup_created_at = 1000 \<rparr>],
                     next_id := 101 \<rparr>)"
  by (simp add: db_suppressions_create_def example_store_def first_create_def lower_example Let_def)

section \<open>The classifier and the signature\<close>

lemma network_truthy:
  "has_network_code e \<longleftrightarrow>
     truthy_string (raw_code e) \<and> the (raw_code e) \<in> set CONNECTION_ERROR_CODES"
  by (auto simp: has_network_code_def network_codes_def truthy_string_def
      CONNECTION_ERROR_CODES_def split: option.splits)






section \<open>A post that fails\<close>

lemma with_delivery_simps:
  "db_up (with_delivery s i f) = db_up s"
  "webhooks (with_delivery s i f) = webhooks s"
  "webhook_deliveries (with_delivery s i f)
     = map (\<lambda>r. if wd_id r = i then f r else r) (webhook_deliveries s)"
  by (simp_all add: with_delivery_def)

lemma with_delivery_twice:
  "(\<And>x. wd_id (f x) = wd_id x) \<Longrightarrow>
   with_delivery (with_delivery s i f) i g = with_delivery s i (g \<circ> f)"
  by (simp add: with_delivery_def comp_def cong: if_cong)

lemma claim_delivery_single:
  assumes d: "distinct (map wd_id (webhook_deliveries s))"
    and sel: "claim_next_webhook_delivery_select locked now s = Some (wd_id r)"
    and r: "r \<in> set (webhook_deliveries s)"
  shows "claim_next_webhook_delivery locked now s =
           ([r\<lparr> wd_status := WD_PENDING, wd_attempts := wd_attempts r + 1,
                  wd_last_attempt_at := Some now \<rparr>],
            with_delivery s (wd_id r)
              (\<lambda>x. x\<lparr> wd_status := WD_PENDING, wd_attempts := wd_attempts x + 1,
                       wd_last_attempt_at := Some now \<rparr>))"
proof -
  have "filter (\<lambda>x. wd_id x = wd_id r)
          (map (\<lambda>x. if wd_id x = wd_id r
                     then x\<lparr> wd_status := WD_PENDING, wd_attempts := wd_attempts x + 1,
                             wd_last_attempt_at := Some now \<rparr>
                     else x) (webhook_deliveries s))
        = map (\<lambda>x. x\<lparr> wd_status := WD_PENDING, wd_attempts := wd_attempts x + 1,
                        wd_last_attempt_at := Some now \<rparr>)
            (filter (\<lambda>x. wd_id x = wd_id r) (webhook_deliveries s))"
    by (rule filter_marked) simp
  also have "\<dots> = [r\<lparr> wd_status := WD_PENDING, wd_attempts := wd_attempts r + 1,
                        wd_last_attempt_at := Some now \<rparr>]"
    using distinct_filter_single[OF d r] by simp
  finally show ?thesis using sel
    by (simp add: claim_next_webhook_delivery_def Let_def with_delivery_def)
qed

lemma delivery_update_with:
  assumes "db_up s"
  shows "snd (db_webhookDeliveries_update s i
                \<lparr> wdu_status = Some st, wdu_attempts = Some n, wdu_last_attempt_at = Some t \<rparr>)
         = with_delivery s i
             (\<lambda>x. x\<lparr> wd_status := st, wd_attempts := n, wd_last_attempt_at := Some t \<rparr>)"
proof -
  have "set_delivery_columns
          \<lparr> wdu_status = Some st, wdu_attempts = Some n, wdu_last_attempt_at = Some t \<rparr>
        = (\<lambda>x. x\<lparr> wd_status := st, wd_attempts := n, wd_last_attempt_at := Some t \<rparr>)"
    by (rule ext) (simp add: set_delivery_columns_def)
  then show ?thesis using assms
    by (simp add: db_webhookDeliveries_update_def no_WebhookDeliveryUpdate_def Let_def
        with_delivery_def)
qed

lemma failed_post_counts_twice:
  assumes up: "db_up s"
    and d: "distinct (map wd_id (webhook_deliveries s))"
    and sel: "claim_next_webhook_delivery_select locked now s = Some (wd_id r)"
    and r: "r \<in> set (webhook_deliveries s)"
    and wh: "getWebhook s (wd_webhook_id r) = Some webhook"
    and act: "wh_active webhook"
    and fail: "\<not> (200 \<le> status \<and> status < 300)"
  shows "wn_store (webhook_processNext config hmac stringify (Response status txt) locked now
                     recently s)
         = with_delivery s (wd_id r)
             (\<lambda>x. x\<lparr> wd_status := (if maxWebhookRetries config \<le> wd_attempts r + 2
                                      then WD_FAILED else WD_PENDING),
                      wd_attempts := wd_attempts r + 2,
                      wd_last_attempt_at := Some now \<rparr>)
       \<and> length (wn_posts (webhook_processNext config hmac stringify (Response status txt)
                              locked now recently s)) = 1"
proof -
  define r' where "r' = r\<lparr> wd_status := WD_PENDING, wd_attempts := wd_attempts r + 1,
                            wd_last_attempt_at := Some now \<rparr>"
  define s1 where "s1 = with_delivery s (wd_id r)
              (\<lambda>x. x\<lparr> wd_status := WD_PENDING, wd_attempts := wd_attempts x + 1,
                       wd_last_attempt_at := Some now \<rparr>)"
  have claim: "db_webhookDeliveries_claimNext locked now s = (Inr (Some r'), s1)"
    using up claim_delivery_single[OF d sel r]
    by (simp add: db_webhookDeliveries_claimNext_def r'_def s1_def)
  have up1: "db_up s1" using up by (simp add: s1_def with_delivery_simps)
  have wh1: "getWebhook s1 (wd_webhook_id r') = Some webhook"
    using wh up by (simp add: getWebhook_def db_webhooks_findById_def s1_def r'_def
        with_delivery_simps)
  have a: "wd_attempts r' + 1 = wd_attempts r + 2" "wd_id r' = wd_id r"
    by (simp_all add: r'_def)
  obtain request result where
    dw: "dispatchWebhook hmac stringify (Response status txt) now r' webhook = (request, result)"
    by (cases "dispatchWebhook hmac stringify (Response status txt) now r' webhook")
  have nf: "\<not> dr_success result"
    using dw fail by (auto simp: dispatchWebhook_def Let_def)
  define st where "st = (if maxWebhookRetries config \<le> wd_attempts r + 2
                          then WD_FAILED else WD_PENDING)"
  have pd: "pd_store (processDelivery config hmac stringify (Response status txt) now s1 r')
              = with_delivery s1 (wd_id r')
                  (\<lambda>x. x\<lparr> wd_status := (if maxWebhookRetries config \<le> wd_attempts r' + 1
                                           then WD_FAILED else WD_PENDING),
                           wd_attempts := wd_attempts r' + 1,
                           wd_last_attempt_at := Some now \<rparr>)
            \<and> pd_posts (processDelivery config hmac stringify (Response status txt) now s1 r')
              = [request]"
    using wh1 act dw nf
    by (simp add: processDelivery_def Let_def delivery_update_with[OF up1] not_le)
  have pd': "pd_store (processDelivery config hmac stringify (Response status txt) now s1 r')
              = with_delivery s1 (wd_id r)
                  (\<lambda>x. x\<lparr> wd_status := st, wd_attempts := wd_attempts r + 2,
                           wd_last_attempt_at := Some now \<rparr>)"
    using pd unfolding a st_def by simp
  have tw: "with_delivery s1 (wd_id r)
                  (\<lambda>x. x\<lparr> wd_status := st, wd_attempts := wd_attempts r + 2,
                           wd_last_attempt_at := Some now \<rparr>)
            = with_delivery s (wd_id r)
                  (\<lambda>x. x\<lparr> wd_status := st, wd_attempts := wd_attempts r + 2,
                           wd_last_attempt_at := Some now \<rparr>)"
    unfolding s1_def by (subst with_delivery_twice) (simp_all add: comp_def)
  have st: "wn_store (webhook_processNext config hmac stringify (Response status txt) locked now
                     recently s)
         = with_delivery s (wd_id r)
                  (\<lambda>x. x\<lparr> wd_status := st, wd_attempts := wd_attempts r + 2,
                           wd_last_attempt_at := Some now \<rparr>)"
    unfolding tw[symmetric] pd'[symmetric] by (simp add: webhook_processNext_def claim Let_def)
  have ps: "length (wn_posts (webhook_processNext config hmac stringify (Response status txt)
                              locked now recently s)) = 1"
    using pd by (simp add: webhook_processNext_def claim Let_def)
  from st ps show ?thesis unfolding st_def by simp
qed

lemma store_after_start: "webhook_503_store = store_after 0 None WD_PENDING"
  by (simp add: webhook_503_store_def store_after_def delivery_after_def example_delivery_def)

lemma store_after_post:
  assumes rdy: "case t of None \<Rightarrow> True | Some t0 \<Rightarrow> t0 < now - 30000"
  shows "wn_store (webhook_processNext default_config hmac stringify
                     (Response 503 ''Service Unavailable'') [] now True
                     (store_after n t WD_PENDING))
           = store_after (n + 2) (Some now) (if 5 \<le> n + 2 then WD_FAILED else WD_PENDING)
         \<and> length (wn_posts (webhook_processNext default_config hmac stringify
                     (Response 503 ''Service Unavailable'') [] now True
                     (store_after n t WD_PENDING))) = 1"
proof -
  let ?s = "store_after n t WD_PENDING"
  let ?r = "delivery_after n t WD_PENDING"
  have up: "db_up ?s" by (simp add: store_after_def example_store_def)
  have rows: "webhook_deliveries ?s = [?r]" by (simp add: store_after_def)
  have d: "distinct (map wd_id (webhook_deliveries ?s))" by (simp add: rows)
  have sel: "claim_next_webhook_delivery_select [] now ?s = Some (wd_id ?r)"
    using rdy by (simp add: claim_next_webhook_delivery_select_def rows delivery_after_def)
  have r: "?r \<in> set (webhook_deliveries ?s)" by (simp add: rows)
  have wh: "getWebhook ?s (wd_webhook_id ?r) = Some example_webhook"
    by (simp add: getWebhook_def db_webhooks_findById_def store_after_def example_store_def
        delivery_after_def example_delivery_def example_webhook_def)
  have act: "wh_active example_webhook" by (simp add: example_webhook_def)
  have fail: "\<not> (200 \<le> (503::int) \<and> (503::int) < 300)" by simp
  note th = failed_post_counts_twice[OF up d sel r wh act fail,
      of default_config hmac stringify "''Service Unavailable''" True]
  have m: "maxWebhookRetries default_config = 5" by (simp add: default_config_def)
  have a: "wd_attempts ?r = n" "wd_id ?r = 20"
    by (simp_all add: delivery_after_def example_delivery_def)
  have "with_delivery ?s (wd_id ?r)
             (\<lambda>x. x\<lparr> wd_status := (if maxWebhookRetries default_config \<le> wd_attempts ?r + 2
                                      then WD_FAILED else WD_PENDING),
                      wd_attempts := wd_attempts ?r + 2,
                      wd_last_attempt_at := Some now \<rparr>)
        = store_after (n + 2) (Some now) (if 5 \<le> n + 2 then WD_FAILED else WD_PENDING)"
    unfolding m a by (simp add: with_delivery_def store_after_def delivery_after_def
        example_delivery_def)
  with th show ?thesis by simp
qed

lemma store_after_idle:
  assumes "st \<noteq> WD_PENDING \<or> (\<exists>t0. t = Some t0 \<and> \<not> t0 < now - 30000)"
  shows "wn_store (webhook_processNext config hmac stringify reply [] now True (store_after n t st))
           = store_after n t st
         \<and> wn_posts (webhook_processNext config hmac stringify reply [] now True
                        (store_after n t st)) = []"
proof -
  have up: "db_up (store_after n t st)" by (simp add: store_after_def example_store_def)
  have "claim_next_webhook_delivery_select [] now (store_after n t st) = None"
    using assms
    by (auto simp: claim_next_webhook_delivery_select_def store_after_def delivery_after_def)
  then show ?thesis using up
    by (simp add: webhook_processNext_def db_webhookDeliveries_claimNext_def
        claim_next_webhook_delivery_def)
qed

section \<open>The claims\<close>

text \<open>
  C1. The default configuration allows five webhook attempts. A fresh pending delivery to
  an endpoint that answers 503 every time, the dispatcher woken six times 31 seconds
  apart: the first round posts and leaves the row pending with \<open>attempts = 2\<close>; after
  three posts the row is \<open>WD_FAILED\<close> with \<open>attempts = 6\<close>, and the later rounds post
  nothing. Each post raises the counter by two, once in \<open>claim_next_webhook_delivery\<close>
  and once more in \<open>processDelivery\<close>, which adds one to the count the claim has
  already raised (lemma \<open>failed_post_counts_twice\<close>, for any store and any limit).
\<close>

theorem webhook_503_run:
  "length (snd (dispatch_rounds default_config hmac stringify (Response 503 ''Service Unavailable'')
            [0, 31000, 62000, 93000, 124000, 155000] webhook_503_store)) = 3
   \<and> map (\<lambda>d. (wd_status d, wd_attempts d, wd_last_attempt_at d))
       (webhook_deliveries (fst (dispatch_rounds default_config hmac stringify
            (Response 503 ''Service Unavailable'')
            [0, 31000, 62000, 93000, 124000, 155000] webhook_503_store)))
     = [(WD_FAILED, 6, Some 62000)]
   \<and> map (\<lambda>d. (wd_status d, wd_attempts d, wd_last_attempt_at d))
       (webhook_deliveries (fst (dispatch_rounds default_config hmac stringify
            (Response 503 ''Service Unavailable'') [0] webhook_503_store)))
     = [(WD_PENDING, 2, Some 0)]"
proof -
  let ?next = "\<lambda>now s. webhook_processNext default_config hmac stringify
                 (Response 503 ''Service Unavailable'') [] now True s"
  have p1: "wn_store (?next 0 (store_after 0 None WD_PENDING)) = store_after 2 (Some 0) WD_PENDING"
           "length (wn_posts (?next 0 (store_after 0 None WD_PENDING))) = 1"
    using store_after_post[where t=None and now=0 and n=0 and hmac=hmac and stringify=stringify]
    by simp_all
  have p2: "wn_store (?next 31000 (store_after 2 (Some 0) WD_PENDING))
              = store_after 4 (Some 31000) WD_PENDING"
           "length (wn_posts (?next 31000 (store_after 2 (Some 0) WD_PENDING))) = 1"
    using store_after_post[where t="Some 0" and now=31000 and n=2 and hmac=hmac
        and stringify=stringify] by simp_all
  have p3: "wn_store (?next 62000 (store_after 4 (Some 31000) WD_PENDING))
              = store_after 6 (Some 62000) WD_FAILED"
           "length (wn_posts (?next 62000 (store_after 4 (Some 31000) WD_PENDING))) = 1"
    using store_after_post[where t="Some 31000" and now=62000 and n=4 and hmac=hmac
        and stringify=stringify] by simp_all
  have idle: "\<And>now. wn_store (?next now (store_after 6 (Some 62000) WD_FAILED))
                        = store_after 6 (Some 62000) WD_FAILED"
             "\<And>now. wn_posts (?next now (store_after 6 (Some 62000) WD_FAILED)) = []"
    using store_after_idle[where st=WD_FAILED and t="Some 62000" and n=6
        and config=default_config and hmac=hmac and stringify=stringify
        and reply="Response 503 ''Service Unavailable''"] by simp_all
  have rows: "\<And>n t st. map (\<lambda>d. (wd_status d, wd_attempts d, wd_last_attempt_at d))
                 (webhook_deliveries (store_after n t st)) = [(st, n, t)]"
    by (simp add: store_after_def delivery_after_def)
  show ?thesis
    unfolding store_after_start
    by (simp add: Let_def p1 p2 p3 idle rows)
qed

text \<open>
  C2, as amended. \<open>claim_next_webhook_delivery\<close> adds one to \<open>attempts\<close> and sets
  \<open>last_attempt_at\<close> to the instant of the claim in the claimed row, in the claim
  statement itself. \<open>claim_next_message\<close> sets only \<open>status\<close>: the \<open>attempts\<close> of
  every message row, the claimed one included, are what they were (the table has no
  \<open>last_attempt_at\<close>).
\<close>

theorem claim_attempt_accounting:
  "(\<forall>d \<in> set (fst (claim_next_webhook_delivery locked now s)).
      \<exists>r \<in> set (webhook_deliveries s).
        d = r\<lparr> wd_status := WD_PENDING, wd_attempts := wd_attempts r + 1,
                 wd_last_attempt_at := Some now \<rparr>
        \<and> d \<in> set (webhook_deliveries (snd (claim_next_webhook_delivery locked now s))))
   \<and> (list_ex (ready_delivery locked now) (webhook_deliveries s) \<longrightarrow>
        fst (claim_next_webhook_delivery locked now s) \<noteq> [])
   \<and> (\<forall>c \<in> set (fst (claim_next_message locked s)).
        \<exists>r \<in> set (messages s). c = r\<lparr>m_status := PROCESSING\<rparr> \<and> m_attempts c = m_attempts r)
   \<and> (list_ex (ready_message locked) (messages s) \<longrightarrow> fst (claim_next_message locked s) \<noteq> [])
   \<and> map m_attempts (messages (snd (claim_next_message locked s))) = map m_attempts (messages s)"
proof (intro conjI ballI impI)
  fix d assume "d \<in> set (fst (claim_next_webhook_delivery locked now s))"
  then show "\<exists>r \<in> set (webhook_deliveries s).
        d = r\<lparr> wd_status := WD_PENDING, wd_attempts := wd_attempts r + 1,
                 wd_last_attempt_at := Some now \<rparr>
        \<and> d \<in> set (webhook_deliveries (snd (claim_next_webhook_delivery locked now s)))"
    by (rule claim_delivery_rows)
next
  assume "list_ex (ready_delivery locked now) (webhook_deliveries s)"
  then show "fst (claim_next_webhook_delivery locked now s) \<noteq> []"
    by (rule claim_delivery_nonempty)
next
  fix c assume "c \<in> set (fst (claim_next_message locked s))"
  from claim_message_rows[OF this] obtain r where
    "r \<in> set (messages s)" "c = r\<lparr>m_status := PROCESSING\<rparr>" by blast
  then show "\<exists>r \<in> set (messages s). c = r\<lparr>m_status := PROCESSING\<rparr> \<and> m_attempts c = m_attempts r"
    by (intro bexI[of _ r]) simp_all
next
  assume "list_ex (ready_message locked) (messages s)"
  then show "fst (claim_next_message locked s) \<noteq> []"
    by (rule claim_message_nonempty)
next
  show "map m_attempts (messages (snd (claim_next_message locked s))) = map m_attempts (messages s)"
    by (rule claim_message_attempts)
qed

text \<open>
  C2 as stated fails for \<open>claim_next_message\<close>: the queue holds two messages with
  \<open>attempts\<close> 0 and 3; the claim takes the older one and returns it with \<open>attempts\<close>
  still 3, and the column holds 0 and 3 afterwards as before.
\<close>

theorem claim_next_message_keeps_attempts:
  "map m_attempts (messages queue_store) = [0, 3]
   \<and> map (\<lambda>r. (m_id r, m_status r, m_attempts r)) (fst (claim_next_message [] queue_store))
       = [(2, PROCESSING, 3)]
   \<and> map m_attempts (messages (snd (claim_next_message [] queue_store))) = [0, 3]"
  unfolding queue_claim_rows
  by (simp add: with_message_simps queue_messages) (simp add: queued_message_def)

theorem claim_attempt_accounting_witness:
  "list_ex (ready_delivery [] 1000) (webhook_deliveries queue_store)
   \<and> fst (claim_next_webhook_delivery [] 1000 queue_store)
       = [example_delivery\<lparr> wd_status := WD_PENDING, wd_attempts := wd_attempts example_delivery + 1,
                             wd_last_attempt_at := Some 1000 \<rparr>]
   \<and> list_ex (ready_message []) (messages queue_store)
   \<and> map m_attempts (fst (claim_next_message [] queue_store)) = [3]
   \<and> map m_attempts (messages (snd (claim_next_message [] queue_store))) = [0, 3]"
proof -
  note th = claim_attempt_accounting[of "[]" 1000 queue_store]
  have wd: "webhook_deliveries queue_store = [example_delivery]"
    by (simp add: queue_store_def)
  have rd: "list_ex (ready_delivery [] 1000) (webhook_deliveries queue_store)"
    by (simp add: wd ready_delivery_def example_delivery_def)
  have rm: "list_ex (ready_message []) (messages queue_store)"
    by (simp add: queue_messages ready_message_def queued_message_def)
  from th rd have ne: "fst (claim_next_webhook_delivery [] 1000 queue_store) \<noteq> []" by blast
  have len: "length (fst (claim_next_webhook_delivery [] 1000 queue_store)) \<le> 1"
    by (simp add: claim_next_webhook_delivery_def Let_def wd split: option.splits)
  from ne len obtain d where d: "fst (claim_next_webhook_delivery [] 1000 queue_store) = [d]"
    by (cases "fst (claim_next_webhook_delivery [] 1000 queue_store)") auto
  then have "d \<in> set (fst (claim_next_webhook_delivery [] 1000 queue_store))" by simp
  with th obtain r where "r \<in> set (webhook_deliveries queue_store)"
    "d = r\<lparr> wd_status := WD_PENDING, wd_attempts := wd_attempts r + 1,
            wd_last_attempt_at := Some 1000 \<rparr>"
    by blast
  with wd have "d = example_delivery\<lparr> wd_status := WD_PENDING,
      wd_attempts := wd_attempts example_delivery + 1, wd_last_attempt_at := Some 1000 \<rparr>"
    by simp
  with d have 1: "fst (claim_next_webhook_delivery [] 1000 queue_store)
       = [example_delivery\<lparr> wd_status := WD_PENDING, wd_attempts := wd_attempts example_delivery + 1,
                             wd_last_attempt_at := Some 1000 \<rparr>]" by simp
  from th have "map m_attempts (messages (snd (claim_next_message [] queue_store)))
                  = map m_attempts (messages queue_store)" by blast
  then have 2: "map m_attempts (messages (snd (claim_next_message [] queue_store))) = [0, 3]"
    by (simp add: queue_messages queued_message_def)
  have 3: "map m_attempts (fst (claim_next_message [] queue_store)) = [3]"
    unfolding queue_claim_rows by (simp add: queued_message_def)
  from rd 1 rm 3 2 show ?thesis by blast
qed

text \<open>
  C3. A claimed message that is not suppressed and whose send resolves to a failure with
  error \<open>e\<close>, the store answering: with \<open>newAttempts = attempts + 1\<close>, when \<open>e\<close>
  is retryable and \<open>newAttempts < maxRetries\<close> the call writes the row back as \<open>QUEUED\<close>
  with \<open>attempts = newAttempts\<close> and the error message as failure reason, changes nothing
  else in the store (so no webhook delivery is created) and reports \<open>queued\<close>; otherwise
  the row becomes \<open>FAILED\<close> with \<open>failed_at\<close> set. With \<open>maxRetries = 0\<close> a first
  failure leaves every row of the message \<open>FAILED\<close>, never \<open>QUEUED\<close>.
\<close>

theorem send_failure_retries_or_fails:
  assumes up: "db_up s"
    and ns: "\<not> is_suppressed toLowerCase s (m_api_key_id m) (m_to_address m)"
  shows
    "(err_shouldRetry e \<and> m_attempts m + 1 < maxRetries config \<longrightarrow>
        processMessage toLowerCase config (Send_resolves (Send_failure e)) now s m =
          \<lparr> pm_store = with_message s (m_id m)
               (\<lambda>r. r\<lparr> m_status := QUEUED, m_attempts := m_attempts m + 1,
                       m_failure_reason := Some (err_message e) \<rparr>),
            pm_sends = [the_request s m],
            pm_result = Returned
              \<lparr> pr_messageId = m_id m, pr_success = False, pr_status = QUEUED,
                pr_error = Some (err_message e), pr_shouldRetry = Some True \<rparr> \<rparr>
        \<and> webhook_deliveries (pm_store (processMessage toLowerCase config (Send_resolves (Send_failure e)) now s m))
            = webhook_deliveries s)
     \<and> (\<not> (err_shouldRetry e \<and> m_attempts m + 1 < maxRetries config) \<longrightarrow>
        messages (pm_store (processMessage toLowerCase config (Send_resolves (Send_failure e)) now s m)) =
          map (\<lambda>r. if m_id r = m_id m
                    then r\<lparr> m_status := FAILED, m_attempts := m_attempts m + 1,
                            m_failed_at := Some now,
                            m_failure_reason := Some (err_message e) \<rparr>
                    else r) (messages s))
     \<and> (maxRetries config = 0 \<and> 0 \<le> m_attempts m \<longrightarrow>
        (\<forall>r \<in> set (messages (pm_store (processMessage toLowerCase config (Send_resolves (Send_failure e)) now s m))).
            m_id r = m_id m \<longrightarrow> m_status r = FAILED \<and> m_failed_at r = Some now))"
proof -
  let ?out = "processMessage toLowerCase config (Send_resolves (Send_failure e)) now s m"
  have retry: "?out =
          \<lparr> pm_store = with_message s (m_id m)
               (\<lambda>r. r\<lparr> m_status := QUEUED, m_attempts := m_attempts m + 1,
                       m_failure_reason := Some (err_message e) \<rparr>),
            pm_sends = [the_request s m],
            pm_result = Returned
              \<lparr> pr_messageId = m_id m, pr_success = False, pr_status = QUEUED,
                pr_error = Some (err_message e), pr_shouldRetry = Some True \<rparr> \<rparr>
        \<and> webhook_deliveries (pm_store ?out) = webhook_deliveries s"
    if r: "err_shouldRetry e \<and> m_attempts m + 1 < maxRetries config"
  proof -
    from r have r1: "err_shouldRetry e" and r2: "m_attempts m + 1 < maxRetries config" by simp_all
    note eq = processMessage_retry[OF up checkSuppression_none[OF up ns] r1 r2, of now]
    show ?thesis by (simp add: eq with_message_simps)
  qed
  have terminal: "messages (pm_store ?out) =
          map (\<lambda>r. if m_id r = m_id m
                    then r\<lparr> m_status := FAILED, m_attempts := m_attempts m + 1,
                            m_failed_at := Some now,
                            m_failure_reason := Some (err_message e) \<rparr>
                    else r) (messages s)"
    if t: "\<not> (err_shouldRetry e \<and> m_attempts m + 1 < maxRetries config)"
  proof (cases "isHardBounce e")
    case True
    from terminal_bounce[OF up ns t True, of now] show ?thesis
      by (auto simp: failed_row_def)
  next
    case False
    from terminal_other[OF up ns t False, of now] show ?thesis
      by (auto simp: failed_row_def)
  qed
  have zero: "\<forall>r \<in> set (messages (pm_store ?out)).
            m_id r = m_id m \<longrightarrow> m_status r = FAILED \<and> m_failed_at r = Some now"
    if z: "maxRetries config = 0 \<and> 0 \<le> m_attempts m"
  proof -
    from z have "\<not> (err_shouldRetry e \<and> m_attempts m + 1 < maxRetries config)" by simp
    from terminal[OF this] show ?thesis by auto
  qed
  from retry terminal zero show ?thesis by blast
qed

theorem send_failure_retries_or_fails_witness:
  "db_up example_store
   \<and> \<not> is_suppressed ascii_lower example_store (m_api_key_id example_message) (m_to_address example_message)
   \<and> err_shouldRetry error_421 \<and> m_attempts example_message + 1 < maxRetries default_config
   \<and> map (\<lambda>r. (m_status r, m_attempts r, m_failure_reason r))
        (messages (pm_store (processMessage ascii_lower default_config (Send_resolves (Send_failure error_421))
                               1000 example_store example_message)))
       = [(QUEUED, 1, Some ''421 try later'')]
   \<and> webhook_deliveries (pm_store (processMessage ascii_lower default_config
            (Send_resolves (Send_failure error_421)) 1000 example_store example_message)) = []
   \<and> maxRetries (default_config\<lparr>maxRetries := 0\<rparr>) = 0 \<and> 0 \<le> m_attempts example_message
   \<and> \<not> (err_shouldRetry error_421
          \<and> m_attempts example_message + 1 < maxRetries (default_config\<lparr>maxRetries := 0\<rparr>))
   \<and> map (\<lambda>r. (m_status r, m_attempts r, m_failed_at r))
        (messages (pm_store (processMessage ascii_lower (default_config\<lparr>maxRetries := 0\<rparr>)
                               (Send_resolves (Send_failure error_421))
                               1000 example_store example_message)))
       = [(FAILED, 1, Some 1000)]"
proof -
  have up: "db_up example_store" by (simp add: example_store_def)
  note a = send_failure_retries_or_fails[OF up example_not_suppressed, of error_421 default_config 1000]
  note b = send_failure_retries_or_fails[OF up example_not_suppressed, of error_421 "default_config\<lparr>maxRetries := 0\<rparr>" 1000]
  have r: "err_shouldRetry error_421 \<and> m_attempts example_message + 1 < maxRetries default_config"
    by (simp add: error_421_eq example_message_def default_config_def)
  have t: "\<not> (err_shouldRetry error_421
          \<and> m_attempts example_message + 1 < maxRetries (default_config\<lparr>maxRetries := 0\<rparr>))"
    by (simp add: example_message_def default_config_def)
  from a r have 1: "map (\<lambda>r. (m_status r, m_attempts r, m_failure_reason r))
        (messages (pm_store (processMessage ascii_lower default_config (Send_resolves (Send_failure error_421))
                               1000 example_store example_message)))
       = [(QUEUED, 1, Some ''421 try later'')]"
    by (simp add: with_message_simps example_store_def example_message_def error_421_eq)
  from a r have 2: "webhook_deliveries (pm_store (processMessage ascii_lower default_config
            (Send_resolves (Send_failure error_421)) 1000 example_store example_message)) = []"
    by (simp add: with_message_simps example_store_def)
  from b t have 3: "map (\<lambda>r. (m_status r, m_attempts r, m_failed_at r))
        (messages (pm_store (processMessage ascii_lower (default_config\<lparr>maxRetries := 0\<rparr>)
                               (Send_resolves (Send_failure error_421))
                               1000 example_store example_message)))
       = [(FAILED, 1, Some 1000)]"
    by (simp add: example_store_def example_message_def)
  from up example_not_suppressed r t 1 2 3 show ?thesis
    by (simp add: default_config_def example_message_def)
qed

text \<open>
  C4. A claimed message that is not suppressed and whose send fails terminally, the store
  answering: the row becomes \<open>FAILED\<close>. When the error is permanent with a response code
  \<open>c\<close> among 550, 551, 552, 553, 554, a suppression row for the tenant and the
  recipient address in lower case is added with reason \<open>hard_bounce\<close>, and one pending
  \<open>message.bounced\<close> delivery is created for each subscribed active webhook, its payload
  carrying \<open>bounceType\<close> \<open>hard\<close>, the code \<open>c\<close> and the message. For any other
  terminal failure the suppressions are unchanged and the deliveries created are
  \<open>message.failed\<close>.
\<close>

theorem hard_bounce_suppresses_and_notifies:
  assumes up: "db_up s"
    and ns: "\<not> is_suppressed toLowerCase s (m_api_key_id m) (m_to_address m)"
    and t: "\<not> (err_shouldRetry e \<and> m_attempts m + 1 < maxRetries config)"
  shows
    "messages (pm_store (processMessage toLowerCase config (Send_resolves (Send_failure e)) now s m)) =
       map (\<lambda>r. if m_id r = m_id m then failed_row m now e r else r) (messages s)
     \<and> (err_type e = permanent \<and> err_responseCode e = Some c
          \<and> c \<in> {550, 551, 552, 553, 554} \<longrightarrow>
          suppressions (pm_store (processMessage toLowerCase config (Send_resolves (Send_failure e)) now s m)) =
            suppressions s @
              [\<lparr> sup_id = next_id s, sup_api_key_id = m_api_key_id m,
                 sup_email = toLowerCase (m_to_address m),
                 sup_reason = HARD_BOUNCE, sup_created_at = now \<rparr>]
          \<and> (\<exists>new.
                webhook_deliveries (pm_store (processMessage toLowerCase config (Send_resolves (Send_failure e)) now s m)) =
                  webhook_deliveries s @ new
                \<and> map wd_webhook_id new = map wh_id (subscribers s (m_api_key_id m) ''message.bounced'')
                \<and> (\<forall>d \<in> set new.
                      wd_event d = ''message.bounced'' \<and> wd_status d = WD_PENDING
                      \<and> wd_message_id d = Some (m_id m)
                      \<and> wd_payload d =
                          [(''event'', JString ''message.bounced''), (''timestamp'', JIsoTime now),
                           (''messageId'', JId (m_id m)), (''bounceType'', JString ''hard''),
                           (''bounceCode'', JNumber c),
                           (''bounceMessage'', JString (err_message e))])))
     \<and> (\<not> (err_type e = permanent
             \<and> err_responseCode e \<in> {Some 550, Some 551, Some 552, Some 553, Some 554}) \<longrightarrow>
          suppressions (pm_store (processMessage toLowerCase config (Send_resolves (Send_failure e)) now s m)) =
            suppressions s
          \<and> (\<exists>new.
                webhook_deliveries (pm_store (processMessage toLowerCase config (Send_resolves (Send_failure e)) now s m)) =
                  webhook_deliveries s @ new
                \<and> map wd_webhook_id new = map wh_id (subscribers s (m_api_key_id m) ''message.failed'')
                \<and> (\<forall>d \<in> set new.
                      wd_event d = ''message.failed'' \<and> wd_status d = WD_PENDING
                      \<and> wd_message_id d = Some (m_id m)
                      \<and> wd_payload d =
                          [(''event'', JString ''message.failed''), (''timestamp'', JIsoTime now),
                           (''messageId'', JId (m_id m)),
                           (''failureReason'', JString (err_message e))])))"
proof (cases "isHardBounce e")
  case True
  then have hard: "err_type e = permanent
      \<and> err_responseCode e \<in> {Some 550, Some 551, Some 552, Some 553, Some 554}"
    by (simp add: isHardBounce_iff)
  from terminal_bounce[OF up ns t True, of now] obtain new where
    st: "pm_store (processMessage toLowerCase config (Send_resolves (Send_failure e)) now s m) =
            s\<lparr> messages := map (\<lambda>r. if m_id r = m_id m then failed_row m now e r else r) (messages s),
               suppressions := suppressions s @
                 [\<lparr> sup_id = next_id s, sup_api_key_id = m_api_key_id m,
                    sup_email = toLowerCase (m_to_address m),
                    sup_reason = HARD_BOUNCE, sup_created_at = now \<rparr>],
               webhook_deliveries := webhook_deliveries s @ new,
               next_id := next_id s + 1 + length new \<rparr>"
    and w: "map wd_webhook_id new = map wh_id (subscribers s (m_api_key_id m) ''message.bounced'')"
    and f: "list_all (fresh_delivery now (m_id m) ''message.bounced''
                         (bounce_payload now (m_id m) e)) new"
    by blast
  have 1: "messages (pm_store (processMessage toLowerCase config (Send_resolves (Send_failure e)) now s m)) =
       map (\<lambda>r. if m_id r = m_id m then failed_row m now e r else r) (messages s)"
    by (simp add: st)
  have 2: "suppressions (pm_store (processMessage toLowerCase config (Send_resolves (Send_failure e)) now s m)) =
                 suppressions s @
                   [\<lparr> sup_id = next_id s, sup_api_key_id = m_api_key_id m,
                      sup_email = toLowerCase (m_to_address m),
                      sup_reason = HARD_BOUNCE, sup_created_at = now \<rparr>]"
    by (simp add: st)
  have 3: "webhook_deliveries (pm_store (processMessage toLowerCase config (Send_resolves (Send_failure e)) now s m)) =
                     webhook_deliveries s @ new"
    by (simp add: st)
  have b: "err_type e = permanent \<and> err_responseCode e = Some c
          \<and> c \<in> {550, 551, 552, 553, 554} \<longrightarrow>
          suppressions (pm_store (processMessage toLowerCase config (Send_resolves (Send_failure e)) now s m)) =
            suppressions s @
              [\<lparr> sup_id = next_id s, sup_api_key_id = m_api_key_id m,
                 sup_email = toLowerCase (m_to_address m),
                 sup_reason = HARD_BOUNCE, sup_created_at = now \<rparr>]
          \<and> (\<exists>new.
                webhook_deliveries (pm_store (processMessage toLowerCase config (Send_resolves (Send_failure e)) now s m)) =
                  webhook_deliveries s @ new
                \<and> map wd_webhook_id new = map wh_id (subscribers s (m_api_key_id m) ''message.bounced'')
                \<and> (\<forall>d \<in> set new.
                      wd_event d = ''message.bounced'' \<and> wd_status d = WD_PENDING
                      \<and> wd_message_id d = Some (m_id m)
                      \<and> wd_payload d =
                          [(''event'', JString ''message.bounced''), (''timestamp'', JIsoTime now),
                           (''messageId'', JId (m_id m)), (''bounceType'', JString ''hard''),
                           (''bounceCode'', JNumber c),
                           (''bounceMessage'', JString (err_message e))]))"
  proof (intro impI conjI)
    assume h: "err_type e = permanent \<and> err_responseCode e = Some c
          \<and> c \<in> {550, 551, 552, 553, 554}"
    then have c: "err_responseCode e = Some c" by simp
    show "suppressions (pm_store (processMessage toLowerCase config (Send_resolves (Send_failure e)) now s m)) =
            suppressions s @
              [\<lparr> sup_id = next_id s, sup_api_key_id = m_api_key_id m,
                 sup_email = toLowerCase (m_to_address m),
                 sup_reason = HARD_BOUNCE, sup_created_at = now \<rparr>]"
      by (rule 2)
    from 3 w fresh_bounce_payload[OF f c]
    show "\<exists>new.
                webhook_deliveries (pm_store (processMessage toLowerCase config (Send_resolves (Send_failure e)) now s m)) =
                  webhook_deliveries s @ new
                \<and> map wd_webhook_id new = map wh_id (subscribers s (m_api_key_id m) ''message.bounced'')
                \<and> (\<forall>d \<in> set new.
                      wd_event d = ''message.bounced'' \<and> wd_status d = WD_PENDING
                      \<and> wd_message_id d = Some (m_id m)
                      \<and> wd_payload d =
                          [(''event'', JString ''message.bounced''), (''timestamp'', JIsoTime now),
                           (''messageId'', JId (m_id m)), (''bounceType'', JString ''hard''),
                           (''bounceCode'', JNumber c),
                           (''bounceMessage'', JString (err_message e))])"
      by (intro exI[of _ new] conjI)
  qed
  from 1 b hard show ?thesis by (intro conjI) simp_all
next
  case False
  then have soft: "\<not> (err_type e = permanent
      \<and> err_responseCode e \<in> {Some 550, Some 551, Some 552, Some 553, Some 554})"
    by (simp add: isHardBounce_iff)
  then have soft': "\<not> (err_type e = permanent \<and> err_responseCode e = Some c
          \<and> c \<in> {550, 551, 552, 553, 554})"
    by auto
  from terminal_other[OF up ns t False, of now] obtain new where
    st: "pm_store (processMessage toLowerCase config (Send_resolves (Send_failure e)) now s m) =
            s\<lparr> messages := map (\<lambda>r. if m_id r = m_id m then failed_row m now e r else r) (messages s),
               webhook_deliveries := webhook_deliveries s @ new,
               next_id := next_id s + length new \<rparr>"
    and w: "map wd_webhook_id new = map wh_id (subscribers s (m_api_key_id m) ''message.failed'')"
    and f: "list_all (fresh_delivery now (m_id m) ''message.failed''
                         (failure_payload now (m_id m) e)) new"
    by blast
  have 1: "messages (pm_store (processMessage toLowerCase config (Send_resolves (Send_failure e)) now s m)) =
       map (\<lambda>r. if m_id r = m_id m then failed_row m now e r else r) (messages s)"
    by (simp add: st)
  have 2: "suppressions (pm_store (processMessage toLowerCase config (Send_resolves (Send_failure e)) now s m)) =
                 suppressions s"
    by (simp add: st)
  have 3: "webhook_deliveries (pm_store (processMessage toLowerCase config (Send_resolves (Send_failure e)) now s m)) =
                     webhook_deliveries s @ new"
    by (simp add: st)
  from 3 w fresh_failure_payload[OF f]
  have x: "\<exists>new.
                webhook_deliveries (pm_store (processMessage toLowerCase config (Send_resolves (Send_failure e)) now s m)) =
                  webhook_deliveries s @ new
                \<and> map wd_webhook_id new = map wh_id (subscribers s (m_api_key_id m) ''message.failed'')
                \<and> (\<forall>d \<in> set new.
                      wd_event d = ''message.failed'' \<and> wd_status d = WD_PENDING
                      \<and> wd_message_id d = Some (m_id m)
                      \<and> wd_payload d =
                          [(''event'', JString ''message.failed''), (''timestamp'', JIsoTime now),
                           (''messageId'', JId (m_id m)),
                           (''failureReason'', JString (err_message e))])"
    by (intro exI[of _ new] conjI)
  from 1 2 x soft' show ?thesis by (intro conjI impI) simp_all
qed

theorem hard_bounce_suppresses_and_notifies_witness:
  "db_up example_store
   \<and> \<not> is_suppressed ascii_lower example_store (m_api_key_id example_message) (m_to_address example_message)
   \<and> \<not> (err_shouldRetry error_550 \<and> m_attempts example_message + 1 < maxRetries default_config)
   \<and> map m_status (messages (pm_store (processMessage ascii_lower default_config
          (Send_resolves (Send_failure error_550)) 1000 example_store example_message))) = [FAILED]
   \<and> err_type error_550 = permanent
   \<and> err_responseCode error_550 = Some 550
   \<and> suppressions (pm_store (processMessage ascii_lower default_config
          (Send_resolves (Send_failure error_550)) 1000 example_store example_message)) =
        [\<lparr> sup_id = 100, sup_api_key_id = 1, sup_email = ''gone@example.com'',
           sup_reason = HARD_BOUNCE, sup_created_at = 1000 \<rparr>]
   \<and> map (\<lambda>d. (wd_webhook_id d, wd_event d, wd_status d, wd_payload d))
        (webhook_deliveries (pm_store (processMessage ascii_lower default_config
          (Send_resolves (Send_failure error_550)) 1000 example_store example_message))) =
        [(10, ''message.bounced'', WD_PENDING,
          [(''event'', JString ''message.bounced''), (''timestamp'', JIsoTime 1000),
           (''messageId'', JId 7), (''bounceType'', JString ''hard''),
           (''bounceCode'', JNumber 550), (''bounceMessage'', JString ''550 no such user'')])]
   \<and> SmtpClient_send (Inr \<lparr> raw_message = ''550 no such user'', raw_code = Some ''EENVELOPE'',
                               raw_responseCode = Some 550 \<rparr>)
       = Send_resolves (Send_failure error_550)
   \<and> \<not> (err_shouldRetry error_554 \<and> m_attempts example_message + 1 < maxRetries default_config)
   \<and> err_type error_554 = permanent
   \<and> err_responseCode error_554 = Some 554
   \<and> suppressions (pm_store (processMessage ascii_lower default_config
          (Send_resolves (Send_failure error_554)) 1000 example_store example_message)) =
        [\<lparr> sup_id = 100, sup_api_key_id = 1, sup_email = ''gone@example.com'',
           sup_reason = HARD_BOUNCE, sup_created_at = 1000 \<rparr>]
   \<and> map (\<lambda>d. (wd_webhook_id d, wd_event d, wd_status d, wd_payload d))
        (webhook_deliveries (pm_store (processMessage ascii_lower default_config
          (Send_resolves (Send_failure error_554)) 1000 example_store example_message))) =
        [(10, ''message.bounced'', WD_PENDING,
          [(''event'', JString ''message.bounced''), (''timestamp'', JIsoTime 1000),
           (''messageId'', JId 7), (''bounceType'', JString ''hard''),
           (''bounceCode'', JNumber 554), (''bounceMessage'', JString ''554 policy rejection'')])]
   \<and> \<not> (err_shouldRetry error_421
          \<and> m_attempts example_message + 1 < maxRetries (default_config\<lparr>maxRetries := 1\<rparr>))
   \<and> err_type error_421 = temporary
   \<and> suppressions (pm_store (processMessage ascii_lower (default_config\<lparr>maxRetries := 1\<rparr>)
          (Send_resolves (Send_failure error_421)) 1000 example_store example_message)) = []
   \<and> map (\<lambda>d. (wd_webhook_id d, wd_event d, wd_status d, wd_payload d))
        (webhook_deliveries (pm_store (processMessage ascii_lower (default_config\<lparr>maxRetries := 1\<rparr>)
          (Send_resolves (Send_failure error_421)) 1000 example_store example_message))) =
        [(10, ''message.failed'', WD_PENDING,
          [(''event'', JString ''message.failed''), (''timestamp'', JIsoTime 1000),
           (''messageId'', JId 7), (''failureReason'', JString ''421 try later'')])]"
proof -
  have ta: "\<not> (err_shouldRetry error_550 \<and> m_attempts example_message + 1 < maxRetries default_config)"
    by (simp add: error_550_eq)
  have ka: "err_type error_550 = permanent" "err_responseCode error_550 = Some 550"
    by (simp_all add: error_550_eq)
  note tha = hard_bounce_suppresses_and_notifies[OF example_up example_not_suppressed ta,
      where now=1000 and c=550]
  from tha ka obtain newa where
    sa: "suppressions (pm_store (processMessage ascii_lower default_config
          (Send_resolves (Send_failure error_550)) 1000 example_store example_message)) = suppressions example_store @
                   [\<lparr> sup_id = next_id example_store, sup_api_key_id = m_api_key_id example_message,
                      sup_email = ascii_lower (m_to_address example_message),
                      sup_reason = HARD_BOUNCE, sup_created_at = 1000 \<rparr>]"
    and wa: "webhook_deliveries (pm_store (processMessage ascii_lower default_config
          (Send_resolves (Send_failure error_550)) 1000 example_store example_message)) = webhook_deliveries example_store @ newa"
    and na: "map wd_webhook_id newa
              = map wh_id (subscribers example_store (m_api_key_id example_message) ''message.bounced'')"
    and pa: "\<forall>d \<in> set newa.
                         wd_event d = ''message.bounced'' \<and> wd_status d = WD_PENDING
                         \<and> wd_message_id d = Some (m_id example_message)
                         \<and> wd_payload d =
                             [(''event'', JString ''message.bounced''), (''timestamp'', JIsoTime 1000),
                              (''messageId'', JId (m_id example_message)), (''bounceType'', JString ''hard''),
                              (''bounceCode'', JNumber 550),
                              (''bounceMessage'', JString (err_message error_550))]"
    by auto
  from sa have sa': "suppressions (pm_store (processMessage ascii_lower default_config
          (Send_resolves (Send_failure error_550)) 1000 example_store example_message)) = [\<lparr> sup_id = 100, sup_api_key_id = 1, sup_email = ''gone@example.com'',
           sup_reason = HARD_BOUNCE, sup_created_at = 1000 \<rparr>]"
    by (simp add: example_store_def example_message_def lower_example)
  from na obtain da where newa: "newa = [da]" and ia: "wd_webhook_id da = 10"
    by (cases newa) (auto simp: example_subscribers example_webhook_def)
  from pa newa have "wd_event da = ''message.bounced'' \<and> wd_status da = WD_PENDING
      \<and> wd_payload da = [(''event'', JString ''message.bounced''), (''timestamp'', JIsoTime 1000),
           (''messageId'', JId 7), (''bounceType'', JString ''hard''),
           (''bounceCode'', JNumber 550), (''bounceMessage'', JString ''550 no such user'')]"
    by (simp add: example_message_def error_550_eq)
  with wa newa ia have wa': "map (\<lambda>d. (wd_webhook_id d, wd_event d, wd_status d, wd_payload d))
        (webhook_deliveries (pm_store (processMessage ascii_lower default_config
          (Send_resolves (Send_failure error_550)) 1000 example_store example_message))) =
        [(10, ''message.bounced'', WD_PENDING,
          [(''event'', JString ''message.bounced''), (''timestamp'', JIsoTime 1000),
           (''messageId'', JId 7), (''bounceType'', JString ''hard''),
           (''bounceCode'', JNumber 550), (''bounceMessage'', JString ''550 no such user'')])]"
    by (simp add: example_store_def)
  from tha have m: "map m_status (messages (pm_store (processMessage ascii_lower default_config
          (Send_resolves (Send_failure error_550)) 1000 example_store example_message))) = [FAILED]"
    by (simp add: example_store_def failed_row_def)
  have sc: "SmtpClient_send (Inr \<lparr> raw_message = ''550 no such user'', raw_code = Some ''EENVELOPE'',
                               raw_responseCode = Some 550 \<rparr>)
       = Send_resolves (Send_failure error_550)"
    by (simp add: SmtpClient_send_def error_550_def)
  have tb: "\<not> (err_shouldRetry error_554 \<and> m_attempts example_message + 1 < maxRetries default_config)"
    by (simp add: error_554_eq)
  have kb: "err_type error_554 = permanent" "err_responseCode error_554 = Some 554"
    by (simp_all add: error_554_eq)
  note thb = hard_bounce_suppresses_and_notifies[OF example_up example_not_suppressed tb,
      where now=1000 and c=554]
  from thb kb obtain newb where
    sb: "suppressions (pm_store (processMessage ascii_lower default_config
          (Send_resolves (Send_failure error_554)) 1000 example_store example_message)) = suppressions example_store @
                   [\<lparr> sup_id = next_id example_store, sup_api_key_id = m_api_key_id example_message,
                      sup_email = ascii_lower (m_to_address example_message),
                      sup_reason = HARD_BOUNCE, sup_created_at = 1000 \<rparr>]"
    and wb: "webhook_deliveries (pm_store (processMessage ascii_lower default_config
          (Send_resolves (Send_failure error_554)) 1000 example_store example_message)) = webhook_deliveries example_store @ newb"
    and nb: "map wd_webhook_id newb
              = map wh_id (subscribers example_store (m_api_key_id example_message) ''message.bounced'')"
    and pb: "\<forall>d \<in> set newb.
                         wd_event d = ''message.bounced'' \<and> wd_status d = WD_PENDING
                         \<and> wd_message_id d = Some (m_id example_message)
                         \<and> wd_payload d =
                             [(''event'', JString ''message.bounced''), (''timestamp'', JIsoTime 1000),
                              (''messageId'', JId (m_id example_message)), (''bounceType'', JString ''hard''),
                              (''bounceCode'', JNumber 554),
                              (''bounceMessage'', JString (err_message error_554))]"
    by auto
  from sb have sb': "suppressions (pm_store (processMessage ascii_lower default_config
          (Send_resolves (Send_failure error_554)) 1000 example_store example_message)) = [\<lparr> sup_id = 100, sup_api_key_id = 1, sup_email = ''gone@example.com'',
           sup_reason = HARD_BOUNCE, sup_created_at = 1000 \<rparr>]"
    by (simp add: example_store_def example_message_def lower_example)
  from nb obtain db where newb: "newb = [db]" and ib: "wd_webhook_id db = 10"
    by (cases newb) (auto simp: example_subscribers example_webhook_def)
  from pb newb have "wd_event db = ''message.bounced'' \<and> wd_status db = WD_PENDING
      \<and> wd_payload db = [(''event'', JString ''message.bounced''), (''timestamp'', JIsoTime 1000),
           (''messageId'', JId 7), (''bounceType'', JString ''hard''),
           (''bounceCode'', JNumber 554), (''bounceMessage'', JString ''554 policy rejection'')]"
    by (simp add: example_message_def error_554_eq)
  with wb newb ib have wb': "map (\<lambda>d. (wd_webhook_id d, wd_event d, wd_status d, wd_payload d))
        (webhook_deliveries (pm_store (processMessage ascii_lower default_config
          (Send_resolves (Send_failure error_554)) 1000 example_store example_message))) =
        [(10, ''message.bounced'', WD_PENDING,
          [(''event'', JString ''message.bounced''), (''timestamp'', JIsoTime 1000),
           (''messageId'', JId 7), (''bounceType'', JString ''hard''),
           (''bounceCode'', JNumber 554), (''bounceMessage'', JString ''554 policy rejection'')])]"
    by (simp add: example_store_def)
  let ?c1 = "default_config\<lparr>maxRetries := 1\<rparr>"
  let ?t' = "pm_store (processMessage ascii_lower ?c1
          (Send_resolves (Send_failure error_421)) 1000 example_store example_message)"
  have t1: "\<not> (err_shouldRetry error_421 \<and> m_attempts example_message + 1 < maxRetries ?c1)"
    by (simp add: example_message_def)
  have nb: "err_type error_421 = temporary"
    by (simp add: error_421_eq)
  note th1 = hard_bounce_suppresses_and_notifies[OF example_up example_not_suppressed t1,
      where now=1000 and c=0]
  from th1 nb obtain new1 where
    s1: "suppressions ?t' = suppressions example_store"
    and w1: "webhook_deliveries ?t' = webhook_deliveries example_store @ new1"
    and n1: "map wd_webhook_id new1
              = map wh_id (subscribers example_store (m_api_key_id example_message) ''message.failed'')"
    and p1: "\<forall>d \<in> set new1.
                      wd_event d = ''message.failed'' \<and> wd_status d = WD_PENDING
                      \<and> wd_message_id d = Some (m_id example_message)
                      \<and> wd_payload d =
                          [(''event'', JString ''message.failed''), (''timestamp'', JIsoTime 1000),
                           (''messageId'', JId (m_id example_message)),
                           (''failureReason'', JString (err_message error_421))]"
    by auto
  from s1 have s1': "suppressions ?t' = []" by (simp add: example_store_def)
  from n1 obtain d1 where new1: "new1 = [d1]" and d1: "wd_webhook_id d1 = 10"
    by (cases new1) (auto simp: example_subscribers example_webhook_def)
  from p1 new1 have "wd_event d1 = ''message.failed'' \<and> wd_status d1 = WD_PENDING
      \<and> wd_payload d1 = [(''event'', JString ''message.failed''), (''timestamp'', JIsoTime 1000),
           (''messageId'', JId 7), (''failureReason'', JString ''421 try later'')]"
    by (simp add: example_message_def error_421_eq)
  with w1 new1 d1 have w1': "map (\<lambda>d. (wd_webhook_id d, wd_event d, wd_status d, wd_payload d))
        (webhook_deliveries ?t') =
        [(10, ''message.failed'', WD_PENDING,
          [(''event'', JString ''message.failed''), (''timestamp'', JIsoTime 1000),
           (''messageId'', JId 7), (''failureReason'', JString ''421 try later'')])]"
    by (simp add: example_store_def)
  from example_up example_not_suppressed ta ka m sa' wa' sc tb kb sb' wb' t1 nb s1' w1'
  show ?thesis by (intro conjI)
qed
text \<open>
  C5. A claimed message whose recipient, in lower case, has a suppression row of the same
  tenant. When the suppression lookup answers, the row becomes \<open>REJECTED\<close> with failure
  reason \<open>Recipient suppressed: \<close> followed by the reason of such a row, nothing is
  handed to \<open>smtp.send\<close>, and the store is otherwise unchanged, so no webhook delivery is
  created; this holds whatever the SMTP client would have answered. When the lookup
  returns a store error, \<open>checkSuppression\<close> answers that the recipient is not
  suppressed and the message is handed to \<open>smtp.send\<close>.
\<close>

theorem suppressed_recipient_is_rejected:
  assumes sup: "is_suppressed toLowerCase s (m_api_key_id m) (m_to_address m)"
  shows "(db_up s \<longrightarrow>
          (\<exists>row \<in> set (suppressions s).
             sup_api_key_id row = m_api_key_id m \<and> sup_email row = toLowerCase (m_to_address m)
             \<and> processMessage toLowerCase config reply now s m =
                 \<lparr> pm_store = with_message s (m_id m)
                      (\<lambda>r. r\<lparr> m_status := REJECTED, m_failed_at := Some now,
                              m_failure_reason :=
                                Some (''Recipient suppressed: '' @ reason_string (sup_reason row)) \<rparr>),
                   pm_sends = [],
                   pm_result = Returned
                     \<lparr> pr_messageId = m_id m, pr_success = False, pr_status = REJECTED,
                       pr_error = Some (''Recipient suppressed: '' @ reason_string (sup_reason row)),
                       pr_shouldRetry = Some False \<rparr> \<rparr>
             \<and> webhook_deliveries (pm_store (processMessage toLowerCase config reply now s m))
                 = webhook_deliveries s))
         \<and> (\<not> db_up s \<longrightarrow>
              db_suppressions_findByEmail toLowerCase s (m_api_key_id m) (m_to_address m)
                = Inl CONNECTION_ERROR
              \<and> checkSuppression toLowerCase s (m_api_key_id m) (m_to_address m)
                  = \<lparr> suppressed = False, reason = None \<rparr>
              \<and> pm_sends (processMessage toLowerCase config reply now s m) = [the_request s m])"
proof (cases "db_up s")
  case up: True
  from checkSuppression_some[OF up sup] obtain row where
    row: "row \<in> set (suppressions s)" "sup_api_key_id row = m_api_key_id m"
         "sup_email row = toLowerCase (m_to_address m)"
         "checkSuppression toLowerCase s (m_api_key_id m) (m_to_address m)
            = \<lparr> suppressed = True, reason = Some (sup_reason row) \<rparr>"
    by blast
  note eq = processMessage_suppressed[OF up row(4), of config reply now]
  have wd: "webhook_deliveries (pm_store (processMessage toLowerCase config reply now s m))
              = webhook_deliveries s"
    unfolding eq by (simp add: with_message_simps)
  have "\<exists>row \<in> set (suppressions s).
             sup_api_key_id row = m_api_key_id m \<and> sup_email row = toLowerCase (m_to_address m)
             \<and> processMessage toLowerCase config reply now s m =
                 \<lparr> pm_store = with_message s (m_id m)
                      (\<lambda>r. r\<lparr> m_status := REJECTED, m_failed_at := Some now,
                              m_failure_reason :=
                                Some (''Recipient suppressed: '' @ reason_string (sup_reason row)) \<rparr>),
                   pm_sends = [],
                   pm_result = Returned
                     \<lparr> pr_messageId = m_id m, pr_success = False, pr_status = REJECTED,
                       pr_error = Some (''Recipient suppressed: '' @ reason_string (sup_reason row)),
                       pr_shouldRetry = Some False \<rparr> \<rparr>
             \<and> webhook_deliveries (pm_store (processMessage toLowerCase config reply now s m))
                 = webhook_deliveries s"
    using eq wd row(1,2,3) by (intro bexI[of _ row] conjI)
  with up show ?thesis by simp
next
  case down: False
  have 1: "db_suppressions_findByEmail toLowerCase s (m_api_key_id m) (m_to_address m)
             = Inl CONNECTION_ERROR"
    using down by (simp add: db_suppressions_findByEmail_def)
  note 2 = checkSuppression_store_error[OF down, of toLowerCase "m_api_key_id m" "m_to_address m"]
  note 3 = processMessage_store_down(1)[OF down, of toLowerCase config reply now m]
  from down 1 2 3 show ?thesis by simp
qed

text \<open>
  C5, as worded. The suppression row is there, but the lookup is answered by a store
  error: the message is handed to \<open>smtp.send\<close> once and the worker reports it sent.
\<close>

theorem suppressed_recipient_sent_on_lookup_error:
  "is_suppressed ascii_lower down_store (m_api_key_id example_message) (m_to_address example_message)
   \<and> pm_sends (processMessage ascii_lower default_config (Send_resolves (Send_success ''250 ok''))
                 1000 down_store example_message)
       = [(\<lparr> em_from = ''noreply@t.example'', em_to = ''Gone@Example.com'',
             em_subject = ''Hello'', em_text = Some ''Hi'', em_html = None,
             em_messageId = ''<7@mailforge>'' \<rparr>, None)]
   \<and> pm_result (processMessage ascii_lower default_config (Send_resolves (Send_success ''250 ok''))
                 1000 down_store example_message)
       = Returned \<lparr> pr_messageId = 7, pr_success = True, pr_status = SENT,
                    pr_error = None, pr_shouldRetry = None \<rparr>"
proof -
  have su: "is_suppressed ascii_lower down_store (m_api_key_id example_message)
              (m_to_address example_message)"
    by (simp add: is_suppressed_def down_store_def suppressed_store_def example_store_def
        example_message_def example_suppression_def lower_example)
  have dn: "\<not> db_up down_store" by (simp add: down_store_def)
  have c: "\<not> suppressed (checkSuppression ascii_lower down_store (m_api_key_id example_message)
                (m_to_address example_message))"
    using dn by (simp add: checkSuppression_store_error)
  have d: "getDkimConfig down_store example_message = None"
    using dn by (simp add: getDkimConfig_def db_domains_findByDomain_def split: list.split)
  have i: "show_nat 7 = ''7''"
    by (simp add: show_nat.simps digit_char_def)
  have 1: "pm_sends (processMessage ascii_lower default_config (Send_resolves (Send_success ''250 ok''))
                 1000 down_store example_message)
       = [(\<lparr> em_from = ''noreply@t.example'', em_to = ''Gone@Example.com'',
             em_subject = ''Hello'', em_text = Some ''Hi'', em_html = None,
             em_messageId = ''<7@mailforge>'' \<rparr>, None)]"
    using c d i by (simp add: processMessage_def Let_def example_message_def)
  have 2: "pm_result (processMessage ascii_lower default_config (Send_resolves (Send_success ''250 ok''))
                 1000 down_store example_message)
       = Returned \<lparr> pr_messageId = 7, pr_success = True, pr_status = SENT,
                    pr_error = None, pr_shouldRetry = None \<rparr>"
    using c by (simp add: processMessage_def Let_def example_message_def)
  from su 1 2 show ?thesis by simp
qed

theorem suppressed_recipient_is_rejected_witness:
  "db_up suppressed_store
   \<and> is_suppressed ascii_lower suppressed_store (m_api_key_id example_message) (m_to_address example_message)
   \<and> pm_sends (processMessage ascii_lower default_config (Send_resolves (Send_success ''250 ok'')) 1000
                  suppressed_store example_message) = []
   \<and> webhook_deliveries (pm_store (processMessage ascii_lower default_config
          (Send_resolves (Send_success ''250 ok'')) 1000 suppressed_store example_message)) = []
   \<and> map (\<lambda>r. (m_status r, m_failure_reason r))
        (messages (pm_store (processMessage ascii_lower default_config
          (Send_resolves (Send_success ''250 ok'')) 1000 suppressed_store example_message)))
      = [(REJECTED, Some ''Recipient suppressed: manual'')]
   \<and> \<not> db_up down_store
   \<and> is_suppressed ascii_lower down_store (m_api_key_id example_message) (m_to_address example_message)
   \<and> checkSuppression ascii_lower down_store (m_api_key_id example_message)
        (m_to_address example_message) = \<lparr> suppressed = False, reason = None \<rparr>
   \<and> pm_sends (processMessage ascii_lower default_config (Send_resolves (Send_success ''250 ok'')) 1000
                  down_store example_message) = [the_request down_store example_message]"
proof -
  have up: "db_up suppressed_store" by (simp add: suppressed_store_def example_store_def)
  have su: "is_suppressed ascii_lower suppressed_store (m_api_key_id example_message) (m_to_address example_message)"
    by (simp add: is_suppressed_def suppressed_store_def example_store_def example_message_def
        example_suppression_def lower_example)
  from suppressed_recipient_is_rejected[OF su, of default_config
      "Send_resolves (Send_success ''250 ok'')" 1000] up
  obtain row where
    r: "row \<in> set (suppressions suppressed_store)"
    and e: "processMessage ascii_lower default_config (Send_resolves (Send_success ''250 ok'')) 1000
              suppressed_store example_message =
               \<lparr> pm_store = with_message suppressed_store (m_id example_message)
                    (\<lambda>r. r\<lparr> m_status := REJECTED, m_failed_at := Some 1000,
                            m_failure_reason :=
                              Some (''Recipient suppressed: '' @ reason_string (sup_reason row)) \<rparr>),
                 pm_sends = [],
                 pm_result = Returned
                   \<lparr> pr_messageId = m_id example_message, pr_success = False, pr_status = REJECTED,
                     pr_error = Some (''Recipient suppressed: '' @ reason_string (sup_reason row)),
                     pr_shouldRetry = Some False \<rparr> \<rparr>"
    by blast
  from r have row: "row = example_suppression"
    by (simp add: suppressed_store_def example_store_def)
  have 1: "pm_sends (processMessage ascii_lower default_config (Send_resolves (Send_success ''250 ok'')) 1000
                  suppressed_store example_message) = []"
    by (simp add: e)
  have 2: "webhook_deliveries (pm_store (processMessage ascii_lower default_config
          (Send_resolves (Send_success ''250 ok'')) 1000 suppressed_store example_message)) = []"
    unfolding e by (simp add: with_message_simps suppressed_store_def example_store_def)
  have 3: "map (\<lambda>r. (m_status r, m_failure_reason r))
        (messages (pm_store (processMessage ascii_lower default_config
          (Send_resolves (Send_success ''250 ok'')) 1000 suppressed_store example_message)))
      = [(REJECTED, Some ''Recipient suppressed: manual'')]"
    unfolding e by (simp add: row with_message_simps suppressed_store_def example_store_def
        example_suppression_def reason_string_def)
  have dn: "\<not> db_up down_store" by (simp add: down_store_def)
  have sd: "is_suppressed ascii_lower down_store (m_api_key_id example_message) (m_to_address example_message)"
    by (simp add: is_suppressed_def down_store_def suppressed_store_def example_store_def
        example_message_def example_suppression_def lower_example)
  from suppressed_recipient_is_rejected[OF sd, of default_config
      "Send_resolves (Send_success ''250 ok'')" 1000] dn
  have 4: "checkSuppression ascii_lower down_store (m_api_key_id example_message)
        (m_to_address example_message) = \<lparr> suppressed = False, reason = None \<rparr>"
    and 5: "pm_sends (processMessage ascii_lower default_config (Send_resolves (Send_success ''250 ok'')) 1000
                  down_store example_message) = [the_request down_store example_message]"
    by blast+
  from up su 1 2 3 dn sd 4 5 show ?thesis by blast
qed
text \<open>
  C6. \<open>claim_next_message\<close>, on a table whose identifiers are distinct (the primary
  key). When no queued row is free of other transactions' locks it returns no row and
  leaves the store alone, and \<open>db.messages.claimNext\<close> answers \<open>ok(null)\<close>. Otherwise
  it takes a queued, unlocked row of least \<open>created_at\<close>, marks it \<open>PROCESSING\<close> and
  returns it, in one step. A row locked by a concurrent claimant is never the one taken
  (\<open>ready_message\<close> excludes it), and once the claim is made no later claim returns
  that row.
\<close>

theorem claim_next_message_takes_earliest:
  assumes d: "distinct (map m_id (messages s))"
  shows
    "(\<not> list_ex (ready_message locked) (messages s) \<longrightarrow>
        claim_next_message locked s = ([], s)
        \<and> (db_up s \<longrightarrow> db_messages_claimNext locked s = (Inr None, s)))
     \<and> (list_ex (ready_message locked) (messages s) \<longrightarrow>
        (\<exists>r \<in> set (messages s).
           ready_message locked r
           \<and> (\<forall>r' \<in> set (messages s). ready_message locked r' \<longrightarrow> m_created_at r \<le> m_created_at r')
           \<and> claim_next_message locked s =
                 ([r\<lparr>m_status := PROCESSING\<rparr>],
                  with_message s (m_id r) (\<lambda>x. x\<lparr>m_status := PROCESSING\<rparr>))
           \<and> (db_up s \<longrightarrow> db_messages_claimNext locked s =
                 (Inr (Some (r\<lparr>m_status := PROCESSING\<rparr>)),
                  with_message s (m_id r) (\<lambda>x. x\<lparr>m_status := PROCESSING\<rparr>)))
           \<and> (\<forall>locked'. claim_next_message_select locked'
                   (with_message s (m_id r) (\<lambda>x. x\<lparr>m_status := PROCESSING\<rparr>)) \<noteq> Some (m_id r))))"
proof (cases "claim_next_message_select locked s")
  case None
  then have n: "\<not> list_ex (ready_message locked) (messages s)" by (simp add: select_None)
  have c: "claim_next_message locked s = ([], s)"
    using None by (simp add: claim_next_message_def)
  have "db_up s \<longrightarrow> db_messages_claimNext locked s = (Inr None, s)"
    by (simp add: db_messages_claimNext_def c)
  with n c show ?thesis by simp
next
  case (Some i)
  then have ex: "list_ex (ready_message locked) (messages s)"
    using select_None[of locked s] by simp
  from claim_some[OF d Some] obtain r where
    r: "r \<in> set (messages s)" "ready_message locked r"
       "\<forall>r' \<in> set (messages s). ready_message locked r' \<longrightarrow> m_created_at r \<le> m_created_at r'"
       "claim_next_message locked s =
                 ([r\<lparr>m_status := PROCESSING\<rparr>],
                  with_message s (m_id r) (\<lambda>x. x\<lparr>m_status := PROCESSING\<rparr>))"
    by blast
  have cn: "db_up s \<longrightarrow> db_messages_claimNext locked s =
                 (Inr (Some (r\<lparr>m_status := PROCESSING\<rparr>)),
                  with_message s (m_id r) (\<lambda>x. x\<lparr>m_status := PROCESSING\<rparr>))"
    by (simp add: db_messages_claimNext_def r(4))
  have nr: "\<forall>locked'. claim_next_message_select locked'
                   (with_message s (m_id r) (\<lambda>x. x\<lparr>m_status := PROCESSING\<rparr>)) \<noteq> Some (m_id r)"
    by (simp add: no_reclaim)
  have "\<exists>r \<in> set (messages s).
           ready_message locked r
           \<and> (\<forall>r' \<in> set (messages s). ready_message locked r' \<longrightarrow> m_created_at r \<le> m_created_at r')
           \<and> claim_next_message locked s =
                 ([r\<lparr>m_status := PROCESSING\<rparr>],
                  with_message s (m_id r) (\<lambda>x. x\<lparr>m_status := PROCESSING\<rparr>))
           \<and> (db_up s \<longrightarrow> db_messages_claimNext locked s =
                 (Inr (Some (r\<lparr>m_status := PROCESSING\<rparr>)),
                  with_message s (m_id r) (\<lambda>x. x\<lparr>m_status := PROCESSING\<rparr>)))
           \<and> (\<forall>locked'. claim_next_message_select locked'
                   (with_message s (m_id r) (\<lambda>x. x\<lparr>m_status := PROCESSING\<rparr>)) \<noteq> Some (m_id r))"
    using r(1)
  proof (rule bexI[rotated])
    show "ready_message locked r
           \<and> (\<forall>r' \<in> set (messages s). ready_message locked r' \<longrightarrow> m_created_at r \<le> m_created_at r')
           \<and> claim_next_message locked s =
                 ([r\<lparr>m_status := PROCESSING\<rparr>],
                  with_message s (m_id r) (\<lambda>x. x\<lparr>m_status := PROCESSING\<rparr>))
           \<and> (db_up s \<longrightarrow> db_messages_claimNext locked s =
                 (Inr (Some (r\<lparr>m_status := PROCESSING\<rparr>)),
                  with_message s (m_id r) (\<lambda>x. x\<lparr>m_status := PROCESSING\<rparr>)))
           \<and> (\<forall>locked'. claim_next_message_select locked'
                   (with_message s (m_id r) (\<lambda>x. x\<lparr>m_status := PROCESSING\<rparr>)) \<noteq> Some (m_id r))"
      using r(2) r(3) r(4) cn nr by (intro conjI)
  qed
  with ex show ?thesis by simp
qed

theorem claim_next_message_takes_earliest_witness:
  "distinct (map m_id (messages queue_store))
   \<and> list_ex (ready_message []) (messages queue_store)
   \<and> claim_next_message [] queue_store =
        ([(queued_message 2 100 3)\<lparr>m_status := PROCESSING\<rparr>],
         with_message queue_store 2 (\<lambda>x. x\<lparr>m_status := PROCESSING\<rparr>))
   \<and> db_up queue_store
   \<and> db_messages_claimNext [] queue_store =
        (Inr (Some ((queued_message 2 100 3)\<lparr>m_status := PROCESSING\<rparr>)),
         with_message queue_store 2 (\<lambda>x. x\<lparr>m_status := PROCESSING\<rparr>))
   \<and> distinct (map m_id (messages example_store))
   \<and> \<not> list_ex (ready_message []) (messages example_store)
   \<and> db_messages_claimNext [] example_store = (Inr None, example_store)
   \<and> \<not> list_ex (ready_message [1, 2]) (messages queue_store)
   \<and> claim_next_message [1, 2] queue_store = ([], queue_store)"
proof -
  have ex: "list_ex (ready_message []) (messages queue_store)"
    by (simp add: queue_messages ready_message_def queued_message_def)
  have up: "db_up queue_store" by (simp add: queue_store_def example_store_def)
  from claim_next_message_takes_earliest[OF queue_distinct, of "[]"] ex obtain r where
    r: "r \<in> set (messages queue_store)"
    and least: "\<forall>r' \<in> set (messages queue_store). ready_message [] r' \<longrightarrow> m_created_at r \<le> m_created_at r'"
    and c: "claim_next_message [] queue_store =
                 ([r\<lparr>m_status := PROCESSING\<rparr>],
                  with_message queue_store (m_id r) (\<lambda>x. x\<lparr>m_status := PROCESSING\<rparr>))"
    and n: "db_up queue_store \<longrightarrow> db_messages_claimNext [] queue_store =
                 (Inr (Some (r\<lparr>m_status := PROCESSING\<rparr>)),
                  with_message queue_store (m_id r) (\<lambda>x. x\<lparr>m_status := PROCESSING\<rparr>))"
    by blast
  have "r = queued_message 2 100 3"
  proof (rule ccontr)
    assume "r \<noteq> queued_message 2 100 3"
    with r have "r = queued_message 1 200 0" by (simp add: queue_messages)
    moreover have "ready_message [] (queued_message 2 100 3)"
      by (simp add: ready_message_def queued_message_def)
    ultimately have "m_created_at (queued_message 1 200 0) \<le> m_created_at (queued_message 2 100 3)"
      using least by (simp add: queue_messages)
    then show False by (simp add: queued_message_def)
  qed
  with c n up have 1: "claim_next_message [] queue_store =
        ([(queued_message 2 100 3)\<lparr>m_status := PROCESSING\<rparr>],
         with_message queue_store 2 (\<lambda>x. x\<lparr>m_status := PROCESSING\<rparr>))"
    and 2: "db_messages_claimNext [] queue_store =
        (Inr (Some ((queued_message 2 100 3)\<lparr>m_status := PROCESSING\<rparr>)),
         with_message queue_store 2 (\<lambda>x. x\<lparr>m_status := PROCESSING\<rparr>))"
    by (simp_all add: queued_message_def)
  have d2: "distinct (map m_id (messages example_store))" by (simp add: example_store_def)
  have ne: "\<not> list_ex (ready_message []) (messages example_store)"
    by (simp add: example_store_def ready_message_def example_message_def)
  from claim_next_message_takes_earliest[OF d2, of "[]"] ne example_up
  have 3: "db_messages_claimNext [] example_store = (Inr None, example_store)" by blast
  have nl: "\<not> list_ex (ready_message [1, 2]) (messages queue_store)"
    by (simp add: queue_messages ready_message_def queued_message_def)
  from claim_next_message_takes_earliest[OF queue_distinct, of "[1, 2]"] nl
  have 4: "claim_next_message [1, 2] queue_store = ([], queue_store)" by blast
  from queue_distinct ex 1 up 2 d2 ne 3 nl 4 show ?thesis by blast
qed

text \<open>
  C7. \<open>classifySmtpError\<close>. An error whose code is one of \<open>ECONNREFUSED\<close>,
  \<open>ECONNRESET\<close>, \<open>ETIMEDOUT\<close>, \<open>ENOTFOUND\<close>, \<open>EHOSTUNREACH\<close>, \<open>ENETUNREACH\<close>,
  \<open>ESOCKET\<close>, \<open>ECONNECTION\<close> is \<open>connection\<close> and retryable, whatever its response
  code, and is given no response code. An error with no such code is classified by its
  response code: among 450, 451, 452 or anywhere from 400 up to 499 it is \<open>temporary\<close> and
  retryable, from 500 up to 599 it is \<open>permanent\<close> and not retryable, and with no
  response code or one outside 400 to 599 it is \<open>unknown\<close> and not retryable. The kind,
  the response code and the retry flag depend on the error's code and response code only,
  so classifying the same error again gives the same three.
\<close>

theorem classifySmtpError_kinds:
  "(has_network_code e \<longrightarrow>
      err_type (classifySmtpError e) = connection \<and> err_shouldRetry (classifySmtpError e)
      \<and> err_responseCode (classifySmtpError e) = None)
   \<and> (\<not> has_network_code e \<and> raw_responseCode e = Some rc
        \<and> (rc \<in> {450, 451, 452} \<or> (400 \<le> rc \<and> rc < 500)) \<longrightarrow>
      err_type (classifySmtpError e) = temporary \<and> err_shouldRetry (classifySmtpError e))
   \<and> (\<not> has_network_code e \<and> raw_responseCode e = Some rc \<and> 500 \<le> rc \<and> rc < 600 \<longrightarrow>
      err_type (classifySmtpError e) = permanent \<and> \<not> err_shouldRetry (classifySmtpError e))
   \<and> (\<not> has_network_code e
        \<and> (raw_responseCode e = None \<or> raw_responseCode e = Some rc \<and> (rc < 400 \<or> 600 \<le> rc)) \<longrightarrow>
      err_type (classifySmtpError e) = unknown \<and> \<not> err_shouldRetry (classifySmtpError e))
   \<and> (raw_code e' = raw_code e \<and> raw_responseCode e' = raw_responseCode e \<longrightarrow>
      err_type (classifySmtpError e') = err_type (classifySmtpError e)
      \<and> err_responseCode (classifySmtpError e') = err_responseCode (classifySmtpError e)
      \<and> err_shouldRetry (classifySmtpError e') = err_shouldRetry (classifySmtpError e))"
proof -
  have kinds: "(has_network_code e \<longrightarrow>
      err_type (classifySmtpError e) = connection \<and> err_shouldRetry (classifySmtpError e)
      \<and> err_responseCode (classifySmtpError e) = None)
   \<and> (\<not> has_network_code e \<and> raw_responseCode e = Some rc
        \<and> (rc \<in> {450, 451, 452} \<or> (400 \<le> rc \<and> rc < 500)) \<longrightarrow>
      err_type (classifySmtpError e) = temporary \<and> err_shouldRetry (classifySmtpError e))
   \<and> (\<not> has_network_code e \<and> raw_responseCode e = Some rc \<and> 500 \<le> rc \<and> rc < 600 \<longrightarrow>
      err_type (classifySmtpError e) = permanent \<and> \<not> err_shouldRetry (classifySmtpError e))
   \<and> (\<not> has_network_code e
        \<and> (raw_responseCode e = None \<or> raw_responseCode e = Some rc \<and> (rc < 400 \<or> 600 \<le> rc)) \<longrightarrow>
      err_type (classifySmtpError e) = unknown \<and> \<not> err_shouldRetry (classifySmtpError e))"
    unfolding network_truthy
    by (auto simp: classifySmtpError_def new_SmtpError_def truthy_number_def
        HARD_BOUNCE_CODES_def SOFT_BOUNCE_CODES_def Let_def)
  have same: "raw_code e' = raw_code e \<and> raw_responseCode e' = raw_responseCode e \<longrightarrow>
      err_type (classifySmtpError e') = err_type (classifySmtpError e)
      \<and> err_responseCode (classifySmtpError e') = err_responseCode (classifySmtpError e)
      \<and> err_shouldRetry (classifySmtpError e') = err_shouldRetry (classifySmtpError e)"
    by (simp add: classifySmtpError_def new_SmtpError_def Let_def)
  from kinds same show ?thesis by simp
qed

text \<open>
  C7, as worded. \<open>5xx response codes to permanent\<close> fails for an error that also
  carries a network code: nodemailer's \<open>ECONNECTION\<close> with the server's 554 is
  \<open>connection\<close> and retryable, and its response code is dropped.
\<close>

theorem network_code_overrides_response_code:
  "raw_code error_connection_554 = Some ''ECONNECTION''
   \<and> raw_responseCode error_connection_554 = Some 554
   \<and> err_type (classifySmtpError error_connection_554) = connection
   \<and> err_type (classifySmtpError error_connection_554) \<noteq> permanent
   \<and> err_shouldRetry (classifySmtpError error_connection_554)
   \<and> err_responseCode (classifySmtpError error_connection_554) = None"
  by (simp add: error_connection_554_def classifySmtpError_def new_SmtpError_def
      truthy_string_def CONNECTION_ERROR_CODES_def)

theorem classifySmtpError_kinds_witness:
  "list_all (\<lambda>c. has_network_code (error_with_code c)
                \<and> err_type (classifySmtpError (error_with_code c)) = connection
                \<and> err_shouldRetry (classifySmtpError (error_with_code c)))
      [''ECONNREFUSED'', ''ECONNRESET'', ''ETIMEDOUT'', ''ENOTFOUND'',
       ''EHOSTUNREACH'', ''ENETUNREACH'', ''ESOCKET'', ''ECONNECTION'']
   \<and> has_network_code error_connection_554
   \<and> err_type (classifySmtpError error_connection_554) = connection
   \<and> \<not> has_network_code (error_raw ''busy'' 451)
   \<and> err_type (classifySmtpError (error_raw ''busy'' 451)) = temporary
   \<and> err_shouldRetry (classifySmtpError (error_raw ''busy'' 451))
   \<and> err_type (classifySmtpError (error_raw ''closing'' 421)) = temporary
   \<and> err_type (classifySmtpError (error_raw ''no such user'' 550)) = permanent
   \<and> \<not> err_shouldRetry (classifySmtpError (error_raw ''no such user'' 550))
   \<and> err_type (classifySmtpError (error_raw ''ok'' 250)) = unknown
   \<and> \<not> err_shouldRetry (classifySmtpError (error_raw ''ok'' 250))
   \<and> \<not> has_network_code (error_with_code ''EENVELOPE'')
   \<and> err_type (classifySmtpError (error_with_code ''EENVELOPE'')) = unknown
   \<and> err_type (classifySmtpError (error_raw ''again'' 451)) = err_type (classifySmtpError (error_raw ''busy'' 451))"
proof -
  have n: "has_network_code (error_with_code c)"
    if "c \<in> set [''ECONNREFUSED'', ''ECONNRESET'', ''ETIMEDOUT'', ''ENOTFOUND'',
                  ''EHOSTUNREACH'', ''ENETUNREACH'', ''ESOCKET'', ''ECONNECTION'']" for c
    using that by (auto simp: has_network_code_def network_codes_def error_with_code_def)
  have n': "has_network_code error_connection_554"
    by (simp add: has_network_code_def network_codes_def error_connection_554_def)
  have m: "\<And>msg rc. \<not> has_network_code (error_raw msg rc)"
    by (simp add: has_network_code_def network_codes_def error_raw_def)
  have m': "\<not> has_network_code (error_with_code ''EENVELOPE'')"
    by (simp add: has_network_code_def network_codes_def error_with_code_def)
  have f: "\<And>msg rc. raw_responseCode (error_raw msg rc) = Some rc"
    "\<And>msg rc. raw_code (error_raw msg rc) = Some ''EENVELOPE''"
    "\<And>c. raw_responseCode (error_with_code c) = None"
    by (simp_all add: error_raw_def error_with_code_def)
  have 0: "has_network_code (error_with_code c)
                \<and> err_type (classifySmtpError (error_with_code c)) = connection
                \<and> err_shouldRetry (classifySmtpError (error_with_code c))"
    if "c \<in> set [''ECONNREFUSED'', ''ECONNRESET'', ''ETIMEDOUT'', ''ENOTFOUND'',
                  ''EHOSTUNREACH'', ''ENETUNREACH'', ''ESOCKET'', ''ECONNECTION'']" for c
    using classifySmtpError_kinds[of "error_with_code c" 0 "error_with_code c"] n[OF that]
    by blast
  have 1: "list_all (\<lambda>c. has_network_code (error_with_code c)
                \<and> err_type (classifySmtpError (error_with_code c)) = connection
                \<and> err_shouldRetry (classifySmtpError (error_with_code c)))
      [''ECONNREFUSED'', ''ECONNRESET'', ''ETIMEDOUT'', ''ENOTFOUND'',
       ''EHOSTUNREACH'', ''ENETUNREACH'', ''ESOCKET'', ''ECONNECTION'']"
    unfolding list_all_iff using 0 by blast
  from classifySmtpError_kinds[of error_connection_554 554 error_connection_554] n'
  have k: "err_type (classifySmtpError error_connection_554) = connection" by blast
  from classifySmtpError_kinds[of "error_raw ''busy'' 451" 451 "error_raw ''again'' 451"] m f
  have 2: "err_type (classifySmtpError (error_raw ''busy'' 451)) = temporary
   \<and> err_shouldRetry (classifySmtpError (error_raw ''busy'' 451))
   \<and> err_type (classifySmtpError (error_raw ''again'' 451)) = err_type (classifySmtpError (error_raw ''busy'' 451))"
    by simp
  from classifySmtpError_kinds[of "error_raw ''closing'' 421" 421 "error_raw ''closing'' 421"] m f
  have 3: "err_type (classifySmtpError (error_raw ''closing'' 421)) = temporary" by simp
  from classifySmtpError_kinds[of "error_raw ''no such user'' 550" 550 "error_raw ''no such user'' 550"] m f
  have 4: "err_type (classifySmtpError (error_raw ''no such user'' 550)) = permanent
   \<and> \<not> err_shouldRetry (classifySmtpError (error_raw ''no such user'' 550))" by simp
  from classifySmtpError_kinds[of "error_raw ''ok'' 250" 250 "error_raw ''ok'' 250"] m f
  have 5: "err_type (classifySmtpError (error_raw ''ok'' 250)) = unknown
   \<and> \<not> err_shouldRetry (classifySmtpError (error_raw ''ok'' 250))" by simp
  from classifySmtpError_kinds[of "error_with_code ''EENVELOPE''" 0 "error_with_code ''EENVELOPE''"] m' f
  have 6: "err_type (classifySmtpError (error_with_code ''EENVELOPE'')) = unknown" by simp
  from m[of "''busy''" 451] n' 1 k 2 3 4 5 m' 6 show ?thesis by simp
qed


text \<open>
  C9. A message just claimed and not suppressed, whose processing throws (here: the send
  rejects with \<open>x\<close>): \<open>processNext\<close> writes the row back as \<open>QUEUED\<close> with
  \<open>attempts\<close> one more than the claimed row had, whatever \<open>maxRetries\<close> is. In
  particular, when \<open>attempts\<close> had already reached \<open>maxRetries\<close>, the row is queued
  again with \<open>attempts\<close> above \<open>maxRetries\<close>.
\<close>

theorem thrown_processing_requeues:
  assumes claim: "db_messages_claimNext locked s = (Inr (Some m), s1)"
    and ns: "\<not> is_suppressed toLowerCase s (m_api_key_id m) (m_to_address m)"
  shows
    "processNext toLowerCase config (Send_throws x) locked now recently s =
       \<lparr> pn_store = with_message s1 (m_id m)
            (\<lambda>r. r\<lparr> m_status := QUEUED, m_attempts := m_attempts m + 1,
                    m_failure_reason := Some (''Processing error: '' @ x) \<rparr>),
         pn_sends = [the_request s1 m],
         pn_result = Some
           \<lparr> pr_messageId = m_id m, pr_success = False, pr_status = QUEUED,
             pr_error = Some x, pr_shouldRetry = Some True \<rparr>,
         pn_recentlyFoundMessages = True \<rparr>
     \<and> (maxRetries config \<le> m_attempts m \<longrightarrow>
          (\<forall>r \<in> set (messages (pn_store (processNext toLowerCase config (Send_throws x) locked now recently s))).
             m_id r = m_id m \<longrightarrow> m_status r = QUEUED \<and> maxRetries config < m_attempts r))"
proof -
  from claimNext_frame[OF claim] have up1: "db_up s1" and sup: "suppressions s1 = suppressions s"
    by simp_all
  have ns1: "\<not> is_suppressed toLowerCase s1 (m_api_key_id m) (m_to_address m)"
    using ns sup by (simp add: is_suppressed_def)
  note th = processMessage_throws[OF up1 checkSuppression_none[OF up1 ns1], of config x now]
  have wy: "\<And>y. snd (db_messages_update s1 (m_id m)
                 (no_MessageUpdate
                    \<lparr> mu_status := Some QUEUED,
                      mu_attempts := Some (m_attempts m + 1),
                      mu_failure_reason := Some y \<rparr>))
           = with_message s1 (m_id m)
            (\<lambda>r. r\<lparr> m_status := QUEUED, m_attempts := m_attempts m + 1,
                    m_failure_reason := Some y \<rparr>)"
    using up1 by (simp add: message_writes)
  have eq: "processNext toLowerCase config (Send_throws x) locked now recently s =
       \<lparr> pn_store = with_message s1 (m_id m)
            (\<lambda>r. r\<lparr> m_status := QUEUED, m_attempts := m_attempts m + 1,
                    m_failure_reason := Some (''Processing error: '' @ x) \<rparr>),
         pn_sends = [the_request s1 m],
         pn_result = Some
           \<lparr> pr_messageId = m_id m, pr_success = False, pr_status = QUEUED,
             pr_error = Some x, pr_shouldRetry = Some True \<rparr>,
         pn_recentlyFoundMessages = True \<rparr>"
    by (simp add: processNext_def claim th wy)
  have "\<forall>r \<in> set (messages (pn_store (processNext toLowerCase config (Send_throws x) locked now recently s))).
             m_id r = m_id m \<longrightarrow> m_status r = QUEUED \<and> maxRetries config < m_attempts r"
    if "maxRetries config \<le> m_attempts m"
    using that by (auto simp: eq with_message_simps)
  with eq show ?thesis by blast
qed

theorem thrown_processing_requeues_witness:
  "db_messages_claimNext [] queue_store =
     (Inr (Some ((queued_message 2 100 3)\<lparr>m_status := PROCESSING\<rparr>)),
      with_message queue_store 2 (\<lambda>x. x\<lparr>m_status := PROCESSING\<rparr>))
   \<and> \<not> is_suppressed ascii_lower queue_store 1 ''Gone@Example.com''
   \<and> maxRetries default_config \<le> m_attempts ((queued_message 2 100 3)\<lparr>m_status := PROCESSING\<rparr>)
   \<and> map (\<lambda>r. (m_id r, m_status r, m_attempts r))
        (messages (pn_store (processNext ascii_lower default_config (Send_throws ''socket hang up'') [] 1000 True
                               queue_store)))
       = [(1, QUEUED, 0), (2, QUEUED, 4)]
   \<and> maxRetries default_config = 3"
proof -
  let ?m = "(queued_message 2 100 3)\<lparr>m_status := PROCESSING\<rparr>"
  have ns: "\<not> is_suppressed ascii_lower queue_store (m_api_key_id ?m) (m_to_address ?m)"
    by (simp add: is_suppressed_def queue_store_def example_store_def)
  have a: "m_api_key_id ?m = 1" "m_to_address ?m = ''Gone@Example.com''" "m_id ?m = 2"
    "m_attempts ?m = 3"
    by (simp_all add: queued_message_def example_message_def)
  note th = thrown_processing_requeues[OF queue_claim ns, of default_config "''socket hang up''" 1000 True]
  from th have "pn_store (processNext ascii_lower default_config (Send_throws ''socket hang up'') [] 1000 True
                               queue_store)
       = with_message (with_message queue_store 2 (\<lambda>x. x\<lparr>m_status := PROCESSING\<rparr>)) (m_id ?m)
            (\<lambda>r. r\<lparr> m_status := QUEUED, m_attempts := m_attempts ?m + 1,
                    m_failure_reason := Some (''Processing error: '' @ ''socket hang up'') \<rparr>)"
    by simp
  then have 1: "map (\<lambda>r. (m_id r, m_status r, m_attempts r))
        (messages (pn_store (processNext ascii_lower default_config (Send_throws ''socket hang up'') [] 1000 True
                               queue_store)))
       = [(1, QUEUED, 0), (2, QUEUED, 4)]"
    by (simp add: a with_message_simps queue_messages) (simp add: queued_message_def)
  have 2: "maxRetries default_config \<le> m_attempts ?m"
    by (simp add: a default_config_def)
  from queue_claim ns a 1 2 show ?thesis by (simp add: default_config_def)
qed

text \<open>
  C10. When \<open>suppressions.create\<close> has succeeded for a tenant and an address, a second
  create for the same tenant and an address that \<open>toLowerCase\<close> maps to the same string,
  whatever its reason and its own \<open>id\<close>, succeeds with the very row the first one
  returned and leaves the store as it was: nothing is inserted, the row and its reason
  stay, and no duplicate-key error comes back. The row is stored under the lowered address.
\<close>

theorem suppressions_create_idempotent:
  assumes first: "db_suppressions_create toLowerCase s t1 d1 = (Inr r1, s1)"
    and tenant: "si_api_key_id d2 = si_api_key_id d1"
    and email: "toLowerCase (si_email d2) = toLowerCase (si_email d1)"
  shows "db_suppressions_create toLowerCase s1 t2 d2 = (Inr r1, s1)
         \<and> r1 \<in> set (suppressions s1)
         \<and> sup_api_key_id r1 = si_api_key_id d1
         \<and> sup_email r1 = toLowerCase (si_email d1)"
proof -
  from create_result[OF first] obtain rest where
    up: "db_up s1" and
    f: "filter (\<lambda>x. sup_api_key_id x = si_api_key_id d1 \<and> sup_email x = toLowerCase (si_email d1))
               (suppressions s1) = r1 # rest" by blast
  have "r1 \<in> set (filter (\<lambda>x. sup_api_key_id x = si_api_key_id d1
                              \<and> sup_email x = toLowerCase (si_email d1)) (suppressions s1))"
    by (simp add: f)
  then have m: "r1 \<in> set (suppressions s1)" "sup_api_key_id r1 = si_api_key_id d1"
    "sup_email r1 = toLowerCase (si_email d1)" by simp_all
  have "db_suppressions_create toLowerCase s1 t2 d2 = (Inr r1, s1)"
    by (rule create_existing[OF up]) (simp add: tenant email f)
  with m show ?thesis by simp
qed

theorem suppressions_create_idempotent_witness:
  "db_suppressions_create ascii_lower example_store 1000 first_create =
     (Inr \<lparr> sup_id = 100, sup_api_key_id = 1, sup_email = ''gone@example.com'',
            sup_reason = HARD_BOUNCE, sup_created_at = 1000 \<rparr>,
      example_store\<lparr> suppressions :=
                       [\<lparr> sup_id = 100, sup_api_key_id = 1, sup_email = ''gone@example.com'',
                          sup_reason = HARD_BOUNCE, sup_created_at = 1000 \<rparr>],
                     next_id := 101 \<rparr>)
   \<and> si_api_key_id second_create = si_api_key_id first_create
   \<and> ascii_lower (si_email second_create) = ascii_lower (si_email first_create)
   \<and> db_suppressions_create ascii_lower
        (example_store\<lparr> suppressions :=
                       [\<lparr> sup_id = 100, sup_api_key_id = 1, sup_email = ''gone@example.com'',
                          sup_reason = HARD_BOUNCE, sup_created_at = 1000 \<rparr>],
                     next_id := 101 \<rparr>) 2000 second_create =
     (Inr \<lparr> sup_id = 100, sup_api_key_id = 1, sup_email = ''gone@example.com'',
            sup_reason = HARD_BOUNCE, sup_created_at = 1000 \<rparr>,
      example_store\<lparr> suppressions :=
                       [\<lparr> sup_id = 100, sup_api_key_id = 1, sup_email = ''gone@example.com'',
                          sup_reason = HARD_BOUNCE, sup_created_at = 1000 \<rparr>],
                     next_id := 101 \<rparr>)"
proof -
  have t: "si_api_key_id second_create = si_api_key_id first_create"
    by (simp add: first_create_def second_create_def)
  have e: "ascii_lower (si_email second_create) = ascii_lower (si_email first_create)"
    by (simp add: first_create_def second_create_def lower_example lower_second)
  from suppressions_create_idempotent[OF first_create_result t e, of 2000]
    first_create_result t e
  show ?thesis by blast
qed

end
